theory Spec2Isabelle
  imports Complex_Main "HOL-Library.Word"
begin

section \<open>Scalars: the camera's value type\<close>

text \<open>
  \<open>gls::camera<T>\<close> is a template over its scalar type \<open>T\<close>, a floating-point type
  chosen by the instantiator. The scalar type of the model has two type parameters,
  the number \<open>'e\<close> of exponent bits and the number \<open>'f\<close> of fraction bits of the
  format: \<open>float\<close> is \<open>(8, 23) scalar\<close> and \<open>double\<close> is \<open>(11, 52) scalar\<close>. A scalar is
  a real number, one of the two infinities, or NaN.

  The range of the format is modelled. \<open>huge\<close> is its largest finite number,
  \<open>(2 - 2\<^sup>-\<^sup>f) \<sqdot> 2 ^ (2 ^ (e - 1) - 1)\<close>, and \<open>tiny\<close> is half its smallest positive number,
  \<open>1 / 2 ^ (2 ^ (e - 1) + f - 1)\<close>. An operation on real operands whose exact result is
  above \<open>huge\<close> overflows to an infinity, and one whose exact result is at most \<open>tiny\<close>
  in absolute value underflows to zero (\<open>to_range\<close>). The special values follow
  IEEE 754: a non-zero number divided by zero is an infinity, \<open>0 / 0\<close>,
  \<open>\<infinity> - \<infinity>\<close>, \<open>\<infinity> \<sqdot> 0\<close>, \<open>\<infinity> / \<infinity>\<close> and the square root of a negative number
  are NaN, NaN propagates, and \<open>==\<close> holds between equal numbers and between equal
  infinities and never with a NaN operand.

  Two things are not modelled. Rounding: a result within the range is the exact real
  number. The sign of zero: there is one zero, which divides like \<open>+0\<close>.
\<close>

datatype ('e, 'f) scalar = Fin real | PInf | MInf | NaN

type_synonym single = "(8, 23) scalar"

definition huge :: "('e::len, 'f::len) scalar itself \<Rightarrow> real" where
  "huge _ = (2 - 1 / 2 ^ LENGTH('f)) * 2 ^ (2 ^ (LENGTH('e) - 1) - 1)"

definition tiny :: "('e::len, 'f::len) scalar itself \<Rightarrow> real" where
  "tiny _ = 1 / 2 ^ (2 ^ (LENGTH('e) - 1) + LENGTH('f) - 1)"

definition to_range :: "real \<Rightarrow> ('e::len, 'f::len) scalar" where
  "to_range r =
     (if huge TYPE(('e, 'f) scalar) < r then PInf
      else if r < - huge TYPE(('e, 'f) scalar) then MInf
      else if \<bar>r\<bar> \<le> tiny TYPE(('e, 'f) scalar) then Fin 0
      else Fin r)"

instantiation scalar :: (len, len) "{plus, minus, uminus, times, inverse}"
begin

fun plus_scalar :: "('a, 'b) scalar \<Rightarrow> ('a, 'b) scalar \<Rightarrow> ('a, 'b) scalar" where
  "plus_scalar (Fin a) (Fin b) = to_range (a + b)"
| "plus_scalar NaN _ = NaN"
| "plus_scalar _ NaN = NaN"
| "plus_scalar PInf MInf = NaN"
| "plus_scalar MInf PInf = NaN"
| "plus_scalar PInf _ = PInf"
| "plus_scalar _ PInf = PInf"
| "plus_scalar MInf _ = MInf"
| "plus_scalar _ MInf = MInf"

fun minus_scalar :: "('a, 'b) scalar \<Rightarrow> ('a, 'b) scalar \<Rightarrow> ('a, 'b) scalar" where
  "minus_scalar (Fin a) (Fin b) = to_range (a - b)"
| "minus_scalar NaN _ = NaN"
| "minus_scalar _ NaN = NaN"
| "minus_scalar PInf PInf = NaN"
| "minus_scalar MInf MInf = NaN"
| "minus_scalar PInf _ = PInf"
| "minus_scalar _ MInf = PInf"
| "minus_scalar MInf _ = MInf"
| "minus_scalar _ PInf = MInf"

fun uminus_scalar :: "('a, 'b) scalar \<Rightarrow> ('a, 'b) scalar" where
  "uminus_scalar (Fin a) = Fin (- a)"
| "uminus_scalar PInf = MInf"
| "uminus_scalar MInf = PInf"
| "uminus_scalar NaN = NaN"

fun times_scalar :: "('a, 'b) scalar \<Rightarrow> ('a, 'b) scalar \<Rightarrow> ('a, 'b) scalar" where
  "times_scalar (Fin a) (Fin b) = to_range (a * b)"
| "times_scalar NaN _ = NaN"
| "times_scalar _ NaN = NaN"
| "times_scalar PInf (Fin b) = (if b = 0 then NaN else if 0 < b then PInf else MInf)"
| "times_scalar MInf (Fin b) = (if b = 0 then NaN else if 0 < b then MInf else PInf)"
| "times_scalar (Fin a) PInf = (if a = 0 then NaN else if 0 < a then PInf else MInf)"
| "times_scalar (Fin a) MInf = (if a = 0 then NaN else if 0 < a then MInf else PInf)"
| "times_scalar PInf PInf = PInf"
| "times_scalar MInf MInf = PInf"
| "times_scalar PInf MInf = MInf"
| "times_scalar MInf PInf = MInf"

fun divide_scalar :: "('a, 'b) scalar \<Rightarrow> ('a, 'b) scalar \<Rightarrow> ('a, 'b) scalar" where
  "divide_scalar (Fin a) (Fin b) =
     (if b = 0 then (if a = 0 then NaN else if 0 < a then PInf else MInf)
      else to_range (a / b))"
| "divide_scalar NaN _ = NaN"
| "divide_scalar _ NaN = NaN"
| "divide_scalar (Fin a) _ = Fin 0"
| "divide_scalar PInf (Fin b) = (if 0 \<le> b then PInf else MInf)"
| "divide_scalar MInf (Fin b) = (if 0 \<le> b then MInf else PInf)"
| "divide_scalar _ _ = NaN"

fun inverse_scalar :: "('a, 'b) scalar \<Rightarrow> ('a, 'b) scalar" where
  "inverse_scalar (Fin a) = (if a = 0 then PInf else to_range (inverse a))"
| "inverse_scalar PInf = Fin 0"
| "inverse_scalar MInf = Fin 0"
| "inverse_scalar NaN = NaN"

instance ..

end

text \<open>\<open>a == b\<close> on scalars.\<close>

fun feq :: "('e, 'f) scalar \<Rightarrow> ('e, 'f) scalar \<Rightarrow> bool" where
  "feq (Fin a) (Fin b) = (a = b)"
| "feq PInf PInf = True"
| "feq MInf MInf = True"
| "feq _ _ = False"

text \<open>
  \<open>std::sqrt\<close>, \<open>std::sin\<close>, \<open>std::cos\<close>, \<open>std::tan\<close>. The sine and cosine of an infinity
  are NaN. No floating-point number is a pole of the tangent; at a real number that
  is one, the tangent of the model is NaN.
\<close>

fun fsqrt :: "('e, 'f) scalar \<Rightarrow> ('e, 'f) scalar" where
  "fsqrt (Fin a) = (if a < 0 then NaN else Fin (sqrt a))"
| "fsqrt PInf = PInf"
| "fsqrt MInf = NaN"
| "fsqrt NaN = NaN"

fun fsin :: "('e, 'f) scalar \<Rightarrow> ('e, 'f) scalar" where
  "fsin (Fin a) = Fin (sin a)"
| "fsin _ = NaN"

fun fcos :: "('e, 'f) scalar \<Rightarrow> ('e, 'f) scalar" where
  "fcos (Fin a) = Fin (cos a)"
| "fcos _ = NaN"

fun ftan :: "('e::len, 'f::len) scalar \<Rightarrow> ('e, 'f) scalar" where
  "ftan (Fin a) = (if cos a = 0 then NaN else to_range (tan a))"
| "ftan _ = NaN"


section \<open>The camera (\<open>include/gls/utilities/camera.hpp\<close>)\<close>

text \<open>
  \<open>std::array<T, 3>\<close> and \<open>std::array<T, 4>\<close> are tuples; \<open>std::array<T, 16>\<close> is a list
  that the code only ever builds as a 16-element literal and reads at the indices
  \<open>0 .. 15\<close>. \<open>==\<close> on \<open>std::array\<close> compares element by element.
\<close>

type_synonym ('e, 'f) vector_type = "('e, 'f) scalar \<times> ('e, 'f) scalar \<times> ('e, 'f) scalar"
type_synonym ('e, 'f) quaternion_type =
  "('e, 'f) scalar \<times> ('e, 'f) scalar \<times> ('e, 'f) scalar \<times> ('e, 'f) scalar"
type_synonym ('e, 'f) matrix_type = "('e, 'f) scalar list"

fun veq :: "('e, 'f) vector_type \<Rightarrow> ('e, 'f) vector_type \<Rightarrow> bool" where
  "veq (v0, v1, v2) (w0, w1, w2) = (feq v0 w0 \<and> feq v1 w1 \<and> feq v2 w2)"

text \<open>\<open>constexpr static value_type pi = static_cast<value_type>( 3.14159265359 )\<close>\<close>

definition camera_pi :: "('e, 'f) scalar" where
  "camera_pi = Fin (314159265359 / 100000000000)"

subsection \<open>Vector, quaternion and matrix helpers\<close>

fun vector_length :: "('e::len, 'f::len) vector_type \<Rightarrow> ('e, 'f) scalar" where
  "vector_length (v0, v1, v2) = fsqrt (v0 * v0 + v1 * v1 + v2 * v2)"

fun vector_normalize :: "('e::len, 'f::len) vector_type \<Rightarrow> ('e, 'f) vector_type" where
  "vector_normalize (v0, v1, v2) =
     (let len = vector_length (v0, v1, v2)
      in (v0 / len, v1 / len, v2 / len))"

fun vector_dot :: "('e::len, 'f::len) vector_type \<Rightarrow> ('e, 'f) vector_type \<Rightarrow> ('e, 'f) scalar" where
  "vector_dot (v0, v1, v2) (w0, w1, w2) = v0 * w0 + v1 * w1 + v2 * w2"

fun vector_cross ::
  "('e::len, 'f::len) vector_type \<Rightarrow> ('e, 'f) vector_type \<Rightarrow> ('e, 'f) vector_type" where
  "vector_cross (v0, v1, v2) (w0, w1, w2) =
     (v1 * w2 - v2 * w1,
      v2 * w0 - v0 * w2,
      v0 * w1 - v1 * w0)"

fun quaternion_length :: "('e::len, 'f::len) quaternion_type \<Rightarrow> ('e, 'f) scalar" where
  "quaternion_length (q0, q1, q2, q3) = fsqrt (q0 * q0 + q1 * q1 + q2 * q2 + q3 * q3)"

fun quaternion_normalize :: "('e::len, 'f::len) quaternion_type \<Rightarrow> ('e, 'f) quaternion_type" where
  "quaternion_normalize (q0, q1, q2, q3) =
     (let len = quaternion_length (q0, q1, q2, q3)
      in (q0 / len, q1 / len, q2 / len, q3 / len))"

fun quaternion_conjugate :: "('e::len, 'f::len) quaternion_type \<Rightarrow> ('e, 'f) quaternion_type" where
  "quaternion_conjugate (q0, q1, q2, q3) = (- q0, - q1, - q2, q3)"

fun quaternion_multiply ::
  "('e::len, 'f::len) quaternion_type \<Rightarrow> ('e, 'f) quaternion_type \<Rightarrow> ('e, 'f) quaternion_type" where
  "quaternion_multiply (q0, q1, q2, q3) (r0, r1, r2, r3) =
     (q0 * r3 + q3 * r0 + q1 * r2 - q2 * r1,
      q1 * r3 + q3 * r1 + q2 * r0 - q0 * r2,
      q2 * r3 + q3 * r2 + q0 * r1 - q1 * r0,
      q3 * r3 - q0 * r0 - q1 * r1 - q2 * r2)"

definition matrix_mult ::
  "('e::len, 'f::len) matrix_type \<Rightarrow> ('e, 'f) matrix_type \<Rightarrow> ('e, 'f) matrix_type" where
  "matrix_mult m n =
     [m ! 0 * n ! 0 + m ! 4 * n ! 1 + m ! 8 * n ! 2 + m ! 12 * n ! 3,
      m ! 1 * n ! 0 + m ! 5 * n ! 1 + m ! 9 * n ! 2 + m ! 13 * n ! 3,
      m ! 2 * n ! 0 + m ! 6 * n ! 1 + m ! 10 * n ! 2 + m ! 14 * n ! 3,
      m ! 3 * n ! 0 + m ! 7 * n ! 1 + m ! 11 * n ! 2 + m ! 15 * n ! 3,
      m ! 0 * n ! 4 + m ! 4 * n ! 5 + m ! 8 * n ! 6 + m ! 12 * n ! 7,
      m ! 1 * n ! 4 + m ! 5 * n ! 5 + m ! 9 * n ! 6 + m ! 13 * n ! 7,
      m ! 2 * n ! 4 + m ! 6 * n ! 5 + m ! 10 * n ! 6 + m ! 14 * n ! 7,
      m ! 3 * n ! 4 + m ! 7 * n ! 5 + m ! 11 * n ! 6 + m ! 15 * n ! 7,
      m ! 0 * n ! 8 + m ! 4 * n ! 9 + m ! 8 * n ! 10 + m ! 12 * n ! 11,
      m ! 1 * n ! 8 + m ! 5 * n ! 9 + m ! 9 * n ! 10 + m ! 13 * n ! 11,
      m ! 2 * n ! 8 + m ! 6 * n ! 9 + m ! 10 * n ! 10 + m ! 14 * n ! 11,
      m ! 3 * n ! 8 + m ! 7 * n ! 9 + m ! 11 * n ! 10 + m ! 15 * n ! 11,
      m ! 0 * n ! 12 + m ! 4 * n ! 13 + m ! 8 * n ! 14 + m ! 12 * n ! 15,
      m ! 1 * n ! 12 + m ! 5 * n ! 13 + m ! 9 * n ! 14 + m ! 13 * n ! 15,
      m ! 2 * n ! 12 + m ! 6 * n ! 13 + m ! 10 * n ! 14 + m ! 14 * n ! 15,
      m ! 3 * n ! 12 + m ! 7 * n ! 13 + m ! 11 * n ! 14 + m ! 15 * n ! 15]"

subsection \<open>State and constructors\<close>

record ('e, 'f) camera =
  m_projection :: "('e, 'f) matrix_type"
  m_view :: "('e, 'f) matrix_type"
  m_matrix :: "('e, 'f) matrix_type"
  m_position :: "('e, 'f) vector_type"
  m_direction :: "('e, 'f) vector_type"
  m_up :: "('e, 'f) vector_type"
  m_fov :: "('e, 'f) scalar"
  m_aspect :: "('e, 'f) scalar"
  m_near :: "('e, 'f) scalar"
  m_far :: "('e, 'f) scalar"
  m_projection_dirty :: bool
  m_view_dirty :: bool
  m_matrix_dirty :: bool

text \<open>
  The three cached matrices have no initialiser: a constructor leaves them with
  whatever the storage held. The constructors of the model take these contents
  (\<open>p0\<close>, \<open>v0\<close>, \<open>x0\<close>) as arguments; the other members get their default member
  initialisers unless the constructor's initialiser list names them.
\<close>

definition camera_default ::
  "('e::len, 'f::len) matrix_type \<Rightarrow> ('e, 'f) matrix_type \<Rightarrow> ('e, 'f) matrix_type \<Rightarrow> ('e, 'f) camera" where
  "camera_default p0 v0 x0 =
     \<lparr> m_projection = p0, m_view = v0, m_matrix = x0,
       m_position = (Fin 0, Fin 0, Fin 0),
       m_direction = (Fin 0, Fin 0, Fin (- 1)),
       m_up = (Fin 0, Fin 1, Fin 0),
       m_fov = camera_pi * Fin 90 / Fin 180,
       m_aspect = Fin 1,
       m_near = Fin 1,
       m_far = Fin 1000,
       m_projection_dirty = True, m_view_dirty = True, m_matrix_dirty = True \<rparr>"

definition camera4 ::
  "('e::len, 'f::len) matrix_type \<Rightarrow> ('e, 'f) matrix_type \<Rightarrow> ('e, 'f) matrix_type \<Rightarrow>
   ('e, 'f) scalar \<Rightarrow> ('e, 'f) scalar \<Rightarrow> ('e, 'f) scalar \<Rightarrow> ('e, 'f) scalar \<Rightarrow> ('e, 'f) camera" where
  "camera4 p0 v0 x0 fov aspect near_distance far_distance =
     (camera_default p0 v0 x0)
       \<lparr> m_fov := fov, m_aspect := aspect, m_near := near_distance, m_far := far_distance \<rparr>"

definition camera7 ::
  "('e::len, 'f::len) matrix_type \<Rightarrow> ('e, 'f) matrix_type \<Rightarrow> ('e, 'f) matrix_type \<Rightarrow>
   ('e, 'f) scalar \<Rightarrow> ('e, 'f) scalar \<Rightarrow> ('e, 'f) scalar \<Rightarrow> ('e, 'f) scalar \<Rightarrow>
   ('e, 'f) vector_type \<Rightarrow> ('e, 'f) vector_type \<Rightarrow> ('e, 'f) vector_type \<Rightarrow> ('e, 'f) camera" where
  "camera7 p0 v0 x0 fov aspect near_distance far_distance position direction up =
     (camera_default p0 v0 x0)
       \<lparr> m_position := position,
         m_fov := fov, m_aspect := aspect, m_near := near_distance, m_far := far_distance,
         m_direction := vector_normalize direction,
         m_up := vector_normalize up \<rparr>"

subsection \<open>Setters\<close>

definition set_fov :: "('e, 'f) scalar \<Rightarrow> ('e, 'f) camera \<Rightarrow> ('e, 'f) camera" where
  "set_fov fov c =
     (if feq (m_fov c) fov then c
      else c\<lparr> m_fov := fov, m_projection_dirty := True, m_matrix_dirty := True \<rparr>)"

definition set_aspect :: "('e, 'f) scalar \<Rightarrow> ('e, 'f) camera \<Rightarrow> ('e, 'f) camera" where
  "set_aspect aspect c =
     (if feq (m_aspect c) aspect then c
      else c\<lparr> m_aspect := aspect, m_projection_dirty := True, m_matrix_dirty := True \<rparr>)"

definition set_near_distance :: "('e, 'f) scalar \<Rightarrow> ('e, 'f) camera \<Rightarrow> ('e, 'f) camera" where
  "set_near_distance near_distance c =
     (if feq (m_near c) near_distance then c
      else c\<lparr> m_near := near_distance, m_projection_dirty := True, m_matrix_dirty := True \<rparr>)"

definition set_far_distance :: "('e, 'f) scalar \<Rightarrow> ('e, 'f) camera \<Rightarrow> ('e, 'f) camera" where
  "set_far_distance far_distance c =
     (if feq (m_far c) far_distance then c
      else c\<lparr> m_far := far_distance, m_projection_dirty := True, m_matrix_dirty := True \<rparr>)"

definition set_position :: "('e, 'f) vector_type \<Rightarrow> ('e, 'f) camera \<Rightarrow> ('e, 'f) camera" where
  "set_position position c =
     (if veq (m_position c) position then c
      else c\<lparr> m_position := position, m_view_dirty := True, m_matrix_dirty := True \<rparr>)"

definition set_direction ::
  "('e::len, 'f::len) vector_type \<Rightarrow> ('e, 'f) camera \<Rightarrow> ('e, 'f) camera" where
  "set_direction direction c =
     (let new_direction = vector_normalize direction
      in if veq (m_direction c) new_direction then c
         else c\<lparr> m_direction := new_direction, m_view_dirty := True, m_matrix_dirty := True \<rparr>)"

definition set_up :: "('e::len, 'f::len) vector_type \<Rightarrow> ('e, 'f) camera \<Rightarrow> ('e, 'f) camera" where
  "set_up up c =
     (let new_up = vector_normalize up
      in if veq (m_up c) new_up then c
         else c\<lparr> m_up := new_up, m_view_dirty := True, m_matrix_dirty := True \<rparr>)"

subsection \<open>Movement and rotation\<close>

definition move :: "('e::len, 'f::len) vector_type \<Rightarrow> ('e, 'f) camera \<Rightarrow> ('e, 'f) camera" where
  "move offset c =
     (case (m_position c, offset) of
        ((p0, p1, p2), (o0, o1, o2)) \<Rightarrow> set_position (p0 + o0, p1 + o1, p2 + o2) c)"

definition move_relative ::
  "('e::len, 'f::len) vector_type \<Rightarrow> ('e, 'f) camera \<Rightarrow> ('e, 'f) camera" where
  "move_relative offset c =
     (case (vector_normalize (vector_cross (m_direction c) (m_up c)), m_direction c, m_up c, offset) of
        ((right0, right1, right2), (d0, d1, d2), (u0, u1, u2), (o0, o1, o2)) \<Rightarrow>
          let delta0 = - d0 * o2; delta1 = - d1 * o2; delta2 = - d2 * o2;
              delta0 = delta0 + (u0 * o1 - right0 * o0);
              delta1 = delta1 + (u1 * o1 - right1 * o0);
              delta2 = delta2 + (u2 * o1 - right2 * o0)
          in move (delta0, delta1, delta2) c)"

text \<open>
  The two overloads of \<open>rotate\<close>: \<open>rotate( quaternion_type rotation )\<close> is
  \<open>rotate_quaternion\<close>, \<open>rotate( vector_type axis, value_type angle )\<close> is \<open>rotate_axis\<close>.
\<close>

definition rotate_quaternion ::
  "('e::len, 'f::len) quaternion_type \<Rightarrow> ('e, 'f) camera \<Rightarrow> ('e, 'f) camera" where
  "rotate_quaternion rotation c =
     (case (m_direction c, m_up c) of
        ((d0, d1, d2), (u0, u1, u2)) \<Rightarrow>
          (case quaternion_multiply (quaternion_multiply rotation (d0, d1, d2, Fin 0))
                  (quaternion_conjugate rotation) of
             (direction0, direction1, direction2, direction3) \<Rightarrow>
          (case quaternion_multiply (quaternion_multiply rotation (u0, u1, u2, Fin 0))
                  (quaternion_conjugate rotation) of
             (up0, up1, up2, up3) \<Rightarrow>
               c\<lparr> m_direction := vector_normalize (direction0, direction1, direction2),
                  m_up := vector_normalize (up0, up1, up2),
                  m_view_dirty := True, m_matrix_dirty := True \<rparr>)))"

definition rotate_axis ::
  "('e::len, 'f::len) vector_type \<Rightarrow> ('e, 'f) scalar \<Rightarrow> ('e, 'f) camera \<Rightarrow> ('e, 'f) camera" where
  "rotate_axis axis angle c =
     (case axis of
        (axis0, axis1, axis2) \<Rightarrow>
          rotate_quaternion (axis0 * fsin (angle / Fin 2),
                  axis1 * fsin (angle / Fin 2),
                  axis2 * fsin (angle / Fin 2),
                  fcos (angle / Fin 2)) c)"

definition set_orientation_taitbryan ::
  "('e::len, 'f::len) scalar \<Rightarrow> ('e, 'f) scalar \<Rightarrow> ('e, 'f) scalar \<Rightarrow> ('e, 'f) camera \<Rightarrow> ('e, 'f) camera" where
  "set_orientation_taitbryan yaw pitch roll c =
     (let direction = (Fin 0, Fin 0, Fin (- 1), Fin 0);
          rotation = (Fin 0, fsin (- yaw / Fin 2), Fin 0, fcos (- yaw / Fin 2));
          direction = quaternion_multiply (quaternion_multiply rotation direction)
                        (quaternion_conjugate rotation);
          direction = quaternion_normalize direction
      in case direction of (dir0, dir1, dir2, dir3) \<Rightarrow>
      (case vector_normalize (vector_cross (Fin 0, Fin 1, Fin 0) (dir0, dir1, dir2)) of
         (right0, right1, right2) \<Rightarrow>
      (let rotation = (right0 * fsin (pitch / Fin 2),
                       right1 * fsin (pitch / Fin 2),
                       right2 * fsin (pitch / Fin 2),
                       fcos (pitch / Fin 2))
       in case quaternion_multiply (quaternion_multiply rotation direction)
                 (quaternion_conjugate rotation) of
            (dir0, dir1, dir2, dir3) \<Rightarrow>
      (case vector_normalize (dir0, dir1, dir2) of
         (md0, md1, md2) \<Rightarrow>
      (case vector_normalize (vector_cross (md0, md1, md2) (right0, right1, right2)) of
         (up_vector0, up_vector1, up_vector2) \<Rightarrow>
      (let up_quaternion = (up_vector0, up_vector1, up_vector2, Fin 0);
           rotation = (md0 * fsin (roll / Fin 2),
                       md1 * fsin (roll / Fin 2),
                       md2 * fsin (roll / Fin 2),
                       fcos (roll / Fin 2))
       in case quaternion_multiply (quaternion_multiply rotation up_quaternion)
                 (quaternion_conjugate rotation) of
            (upq0, upq1, upq2, upq3) \<Rightarrow>
              c\<lparr> m_direction := (md0, md1, md2),
                 m_up := vector_normalize (upq0, upq1, upq2),
                 m_view_dirty := True, m_matrix_dirty := True \<rparr>))))))"

subsection \<open>Lazy recomputation\<close>

text \<open>
  \<open>update()\<close> has three guarded blocks, one per cached matrix. The model returns,
  besides the new state, the list of the blocks that ran, in the order in which they
  ran.
\<close>

datatype cache = Projection | View | Matrix

definition projection_block :: "('e::len, 'f::len) camera \<Rightarrow> ('e, 'f) camera" where
  "projection_block c =
     c\<lparr> m_projection :=
          [Fin 1 / (m_aspect c * ftan (m_fov c / Fin 2)), Fin 0, Fin 0, Fin 0,
           Fin 0, Fin 1 / ftan (m_fov c / Fin 2), Fin 0, Fin 0,
           Fin 0, Fin 0, - (m_far c + m_near c) / (m_far c - m_near c), Fin (- 1),
           Fin 0, Fin 0, - (Fin 2 * m_far c * m_near c) / (m_far c - m_near c), Fin 0],
        m_projection_dirty := False \<rparr>"

definition view_block :: "('e::len, 'f::len) camera \<Rightarrow> ('e, 'f) camera" where
  "view_block c =
     (case (m_direction c, vector_normalize (vector_cross (m_direction c) (m_up c)), m_position c) of
        ((d0, d1, d2), (s0, s1, s2), (p0, p1, p2)) \<Rightarrow>
          (case vector_cross (s0, s1, s2) (d0, d1, d2) of
             (u0, u1, u2) \<Rightarrow>
               c\<lparr> m_view :=
                    matrix_mult
                      [s0, u0, - d0, Fin 0,
                       s1, u1, - d1, Fin 0,
                       s2, u2, - d2, Fin 0,
                       Fin 0, Fin 0, Fin 0, Fin 1]
                      [Fin 1, Fin 0, Fin 0, Fin 0,
                       Fin 0, Fin 1, Fin 0, Fin 0,
                       Fin 0, Fin 0, Fin 1, Fin 0,
                       - p0, - p1, - p2, Fin 1],
                  m_view_dirty := False \<rparr>))"

definition matrix_block :: "('e::len, 'f::len) camera \<Rightarrow> ('e, 'f) camera" where
  "matrix_block c =
     c\<lparr> m_matrix := matrix_mult (m_projection c) (m_view c), m_matrix_dirty := False \<rparr>"

definition update :: "('e::len, 'f::len) camera \<Rightarrow> cache list \<times> ('e, 'f) camera" where
  "update c =
     (let (l1, c1) = (if m_projection_dirty c then ([Projection], projection_block c) else ([], c));
          (l2, c2) = (if m_view_dirty c1 then ([View], view_block c1) else ([], c1));
          (l3, c3) = (if m_matrix_dirty c2 then ([Matrix], matrix_block c2) else ([], c2))
      in (l1 @ l2 @ l3, c3))"

text \<open>
  A query returns the matrix, the blocks that ran for it and the camera after the
  call (the caches and dirty flags are \<open>mutable\<close> members).
\<close>

definition get_view ::
  "('e::len, 'f::len) camera \<Rightarrow> ('e, 'f) matrix_type \<times> cache list \<times> ('e, 'f) camera" where
  "get_view c = (case update c of (l, c') \<Rightarrow> (m_view c', l, c'))"

definition get_projection ::
  "('e::len, 'f::len) camera \<Rightarrow> ('e, 'f) matrix_type \<times> cache list \<times> ('e, 'f) camera" where
  "get_projection c = (case update c of (l, c') \<Rightarrow> (m_projection c', l, c'))"

definition get_matrix ::
  "('e::len, 'f::len) camera \<Rightarrow> ('e, 'f) matrix_type \<times> cache list \<times> ('e, 'f) camera" where
  "get_matrix c = (case update c of (l, c') \<Rightarrow> (m_matrix c', l, c'))"

subsection \<open>Sequences of calls\<close>

text \<open>
  The public member functions as a datatype, so that "every state reachable by a
  sequence of calls" is a statement about lists. A query changes the camera only
  through \<open>update\<close>.
\<close>

datatype ('e, 'f) call =
    Set_fov "('e, 'f) scalar"
  | Set_aspect "('e, 'f) scalar"
  | Set_near_distance "('e, 'f) scalar"
  | Set_far_distance "('e, 'f) scalar"
  | Set_position "('e, 'f) vector_type"
  | Set_direction "('e, 'f) vector_type"
  | Set_up "('e, 'f) vector_type"
  | Move "('e, 'f) vector_type"
  | Move_relative "('e, 'f) vector_type"
  | Rotate "('e, 'f) quaternion_type"
  | Rotate_axis "('e, 'f) vector_type" "('e, 'f) scalar"
  | Set_orientation_taitbryan "('e, 'f) scalar" "('e, 'f) scalar" "('e, 'f) scalar"
  | Get_view
  | Get_projection
  | Get_matrix

fun apply_call :: "('e::len, 'f::len) call \<Rightarrow> ('e, 'f) camera \<Rightarrow> ('e, 'f) camera" where
  "apply_call (Set_fov x) c = set_fov x c"
| "apply_call (Set_aspect x) c = set_aspect x c"
| "apply_call (Set_near_distance x) c = set_near_distance x c"
| "apply_call (Set_far_distance x) c = set_far_distance x c"
| "apply_call (Set_position v) c = set_position v c"
| "apply_call (Set_direction v) c = set_direction v c"
| "apply_call (Set_up v) c = set_up v c"
| "apply_call (Move v) c = move v c"
| "apply_call (Move_relative v) c = move_relative v c"
| "apply_call (Rotate q) c = rotate_quaternion q c"
| "apply_call (Rotate_axis v a) c = rotate_axis v a c"
| "apply_call (Set_orientation_taitbryan y p r) c = set_orientation_taitbryan y p r c"
| "apply_call Get_view c = snd (snd (get_view c))"
| "apply_call Get_projection c = snd (snd (get_projection c))"
| "apply_call Get_matrix c = snd (snd (get_matrix c))"

fun apply_calls :: "('e::len, 'f::len) call list \<Rightarrow> ('e, 'f) camera \<Rightarrow> ('e, 'f) camera" where
  "apply_calls [] c = c"
| "apply_calls (k # ks) c = apply_calls ks (apply_call k c)"

text \<open>
  The three constructors, with the contents of the storage that the cached matrices
  are left with.
\<close>

datatype ('e, 'f) constructor_call =
    Camera
  | Camera4 "('e, 'f) scalar" "('e, 'f) scalar" "('e, 'f) scalar" "('e, 'f) scalar"
  | Camera7 "('e, 'f) scalar" "('e, 'f) scalar" "('e, 'f) scalar" "('e, 'f) scalar"
      "('e, 'f) vector_type" "('e, 'f) vector_type" "('e, 'f) vector_type"

fun new_camera ::
  "('e::len, 'f::len) matrix_type \<Rightarrow> ('e, 'f) matrix_type \<Rightarrow> ('e, 'f) matrix_type \<Rightarrow>
   ('e, 'f) constructor_call \<Rightarrow> ('e, 'f) camera" where
  "new_camera p0 v0 x0 Camera = camera_default p0 v0 x0"
| "new_camera p0 v0 x0 (Camera4 fov aspect near_distance far_distance) =
     camera4 p0 v0 x0 fov aspect near_distance far_distance"
| "new_camera p0 v0 x0 (Camera7 fov aspect near_distance far_distance position direction up) =
     camera7 p0 v0 x0 fov aspect near_distance far_distance position direction up"

subsection \<open>What the cached matrices are to hold\<close>

text \<open>
  The product of two 4 by 4 matrices stored column by column: the entry in row \<open>r\<close>
  and column \<open>c\<close> is at index \<open>4c + r\<close>, and the entry of the product there is the sum
  over \<open>k = 0, 1, 2, 3\<close>, taken in this order, of the entry of \<open>m\<close> in row \<open>r\<close> and
  column \<open>k\<close> times the entry of \<open>n\<close> in row \<open>k\<close> and column \<open>c\<close>.
\<close>

definition column_major_product ::
  "('e::len, 'f::len) matrix_type \<Rightarrow> ('e, 'f) matrix_type \<Rightarrow> ('e, 'f) matrix_type" where
  "column_major_product m n =
     map (\<lambda>i. m ! (i mod 4) * n ! (4 * (i div 4))
              + m ! (i mod 4 + 4) * n ! (4 * (i div 4) + 1)
              + m ! (i mod 4 + 8) * n ! (4 * (i div 4) + 2)
              + m ! (i mod 4 + 12) * n ! (4 * (i div 4) + 3))
         [0 ..< 16]"

text \<open>
  The perspective projection matrix of a field of view, an aspect ratio and the
  distances of the near and far planes, and the view matrix of a position, a direction
  and an up vector, as functions of these parameters: the rotation whose rows are the
  right vector \<open>s\<close>, the vector \<open>u = s \<times> d\<close> and the reversed direction, times the
  translation by the negated position.
\<close>

definition perspective ::
  "('e::len, 'f::len) scalar \<Rightarrow> ('e, 'f) scalar \<Rightarrow> ('e, 'f) scalar \<Rightarrow> ('e, 'f) scalar \<Rightarrow>
   ('e, 'f) matrix_type" where
  "perspective fov aspect near_distance far_distance =
     [Fin 1 / (aspect * ftan (fov / Fin 2)), Fin 0, Fin 0, Fin 0,
      Fin 0, Fin 1 / ftan (fov / Fin 2), Fin 0, Fin 0,
      Fin 0, Fin 0, - (far_distance + near_distance) / (far_distance - near_distance), Fin (- 1),
      Fin 0, Fin 0, - (Fin 2 * far_distance * near_distance) / (far_distance - near_distance), Fin 0]"

definition look_at ::
  "('e::len, 'f::len) vector_type \<Rightarrow> ('e, 'f) vector_type \<Rightarrow> ('e, 'f) vector_type \<Rightarrow>
   ('e, 'f) matrix_type" where
  "look_at position direction up =
     (case (direction, vector_normalize (vector_cross direction up), position) of
        ((d0, d1, d2), (s0, s1, s2), (p0, p1, p2)) \<Rightarrow>
          (case vector_cross (s0, s1, s2) (d0, d1, d2) of
             (u0, u1, u2) \<Rightarrow>
               column_major_product
                 [s0, u0, - d0, Fin 0,
                  s1, u1, - d1, Fin 0,
                  s2, u2, - d2, Fin 0,
                  Fin 0, Fin 0, Fin 0, Fin 1]
                 [Fin 1, Fin 0, Fin 0, Fin 0,
                  Fin 0, Fin 1, Fin 0, Fin 0,
                  Fin 0, Fin 0, Fin 1, Fin 0,
                  - p0, - p1, - p2, Fin 1]))"

text \<open>
  The relation between the dirty flags and the caches that the member functions
  maintain: a cache that is not marked dirty holds the matrix of the present
  parameters, and when the combined matrix is not marked dirty, neither are the other
  two.
\<close>

definition caches_current :: "('e::len, 'f::len) camera \<Rightarrow> bool" where
  "caches_current c =
     ((if m_projection_dirty c then True
       else m_projection c = perspective (m_fov c) (m_aspect c) (m_near c) (m_far c))
      \<and> (if m_view_dirty c then True
         else m_view c = look_at (m_position c) (m_direction c) (m_up c))
      \<and> (if m_matrix_dirty c then True
         else \<not> m_projection_dirty c \<and> \<not> m_view_dirty c
              \<and> m_matrix c = column_major_product (m_projection c) (m_view c)))"

subsection \<open>Comparisons with a tolerance, and unit length\<close>

text \<open>
  \<open>\<bar>a - b\<bar> \<le> tol\<close> on scalars, as a test with a tolerance compares them: it holds of
  no pair with an infinity or a NaN in it, for which the difference is an infinity
  or NaN.
\<close>

fun within_tolerance :: "real \<Rightarrow> ('e, 'f) scalar \<Rightarrow> ('e, 'f) scalar \<Rightarrow> bool" where
  "within_tolerance tol (Fin a) (Fin b) = (\<bar>a - b\<bar> \<le> tol)"
| "within_tolerance tol _ _ = False"

text \<open>A scalar that is a number: neither an infinity nor a NaN.\<close>

fun is_number :: "('e, 'f) scalar \<Rightarrow> bool" where
  "is_number (Fin a) = True"
| "is_number _ = False"








section \<open>The resource handle (\<open>include/gls/objects/object.hpp\<close>)\<close>

text \<open>
  A \<open>gls::object<Generator, Deleter>\<close> has one member, \<open>GLuint m_name\<close>. The model keeps
  the \<open>m_name\<close> of every live C++ object, keyed by the object's identity, and the
  arguments of the calls of \<open>Deleter\<close> so far, oldest first. An operation on an object
  that is not alive (or the construction of one that is) is not a C++ program: \<open>None\<close>.
\<close>

type_synonym GLuint = "32 word"
type_synonym handle = nat

record world =
  objects :: "handle \<Rightarrow> GLuint option"
  deleted :: "GLuint list"

definition name :: "handle \<Rightarrow> world \<Rightarrow> GLuint option" where
  "name h w = objects w h"

text \<open>\<open>object()\<close>: \<open>Generator( 1, &m_name )\<close> leaves \<open>generated\<close> in \<open>m_name\<close>.\<close>

definition object_construct :: "handle \<Rightarrow> GLuint \<Rightarrow> world \<Rightarrow> world option" where
  "object_construct h generated w =
     (case objects w h of
        Some _ \<Rightarrow> None
      | None \<Rightarrow> Some (w\<lparr> objects := (objects w)(h \<mapsto> generated) \<rparr>))"

text \<open>\<open>~object()\<close>: \<open>Deleter( 1, &m_name )\<close>, then the object is gone.\<close>

definition object_destroy :: "handle \<Rightarrow> world \<Rightarrow> world option" where
  "object_destroy h w =
     (case objects w h of
        None \<Rightarrow> None
      | Some n \<Rightarrow> Some (w\<lparr> objects := (objects w)(h := None), deleted := deleted w @ [n] \<rparr>))"

text \<open>\<open>object( object&& other )\<close>: \<open>m_name( 0u )\<close>, then \<open>std::swap( m_name, other.m_name )\<close>.\<close>

definition object_move_construct :: "handle \<Rightarrow> handle \<Rightarrow> world \<Rightarrow> world option" where
  "object_move_construct h other w =
     (case (objects w h, objects w other) of
        (None, Some n) \<Rightarrow> Some (w\<lparr> objects := (objects w)(h \<mapsto> n, other \<mapsto> 0) \<rparr>)
      | _ \<Rightarrow> None)"

text \<open>\<open>operator=( object&& other )\<close>: \<open>std::swap( m_name, other.m_name )\<close>.\<close>

definition object_move_assign :: "handle \<Rightarrow> handle \<Rightarrow> world \<Rightarrow> world option" where
  "object_move_assign h other w =
     (case (objects w h, objects w other) of
        (Some a, Some b) \<Rightarrow> Some (w\<lparr> objects := (objects w)(h \<mapsto> b, other \<mapsto> a) \<rparr>)
      | _ \<Rightarrow> None)"

datatype handle_op =
    Move_construct handle handle
  | Move_assign handle handle
  | Destroy handle

fun apply_handle_op :: "handle_op \<Rightarrow> world \<Rightarrow> world option" where
  "apply_handle_op (Move_construct h other) w = object_move_construct h other w"
| "apply_handle_op (Move_assign h other) w = object_move_assign h other w"
| "apply_handle_op (Destroy h) w = object_destroy h w"

fun apply_handle_ops :: "handle_op list \<Rightarrow> world \<Rightarrow> world option" where
  "apply_handle_ops [] w = Some w"
| "apply_handle_ops (x # xs) w =
     (case apply_handle_op x w of None \<Rightarrow> None | Some w' \<Rightarrow> apply_handle_ops xs w')"

text \<open>One constructed handle, object \<open>0\<close>, and no call of \<open>Deleter\<close> yet.\<close>

definition single_handle :: "GLuint \<Rightarrow> world" where
  "single_handle generated = \<lparr> objects = (\<lambda>h. None)(0 \<mapsto> generated), deleted = [] \<rparr>"

text \<open>
  Exclusive ownership of the name \<open>g\<close>: every live object holds \<open>g\<close> or \<open>0\<close>; as long
  as \<open>Deleter\<close> has not been called with \<open>g\<close>, exactly one live object holds \<open>g\<close>;
  afterwards none does, and that call was the only one.
\<close>

definition exclusive :: "GLuint \<Rightarrow> (handle \<Rightarrow> GLuint option) \<Rightarrow> GLuint list \<Rightarrow> bool" where
  "exclusive g live calls =
     ((\<forall>h n. live h = Some n \<longrightarrow> n = g \<or> n = 0)
      \<and> (if g \<in> set calls
          then count_list calls g = 1 \<and> {h. live h = Some g} = {}
          else \<exists>h. {h'. live h' = Some g} = {h}))"

definition owned_once :: "GLuint \<Rightarrow> world \<Rightarrow> bool" where
  "owned_once g w = exclusive g (objects w) (deleted w)"

section \<open>The renderbuffer (\<open>include/gls/objects/renderbuffer.hpp\<close>)\<close>

text \<open>
  \<open>GLsizei\<close> and \<open>GLint\<close> are 32-bit signed integers, \<open>GLenum\<close> a 32-bit unsigned one.
  Of the OpenGL context the constructor reads \<open>GL_MAX_SAMPLES\<close> and
  \<open>GL_MAX_RENDERBUFFER_SIZE\<close>; its three \<open>assert\<close>s abort the program unless \<open>NDEBUG\<close>
  is defined. Binding and storage allocation act on the context only.
\<close>

type_synonym GLsizei = "32 word"
type_synonym GLint = "32 word"
type_synonym GLenum = "32 word"

record gl_context =
  ndebug :: bool
  max_samples :: GLint
  max_renderbuffer_size :: GLint

record renderbuffer =
  m_object :: GLuint
  m_width :: GLsizei
  m_height :: GLsizei

datatype abort = Assertion_failed

text \<open>\<open>renderbuffer( GLsizei samples, GLenum internal_format, GLsizei the_width, GLsizei the_height )\<close>\<close>

definition renderbuffer4 ::
  "gl_context \<Rightarrow> GLuint \<Rightarrow> GLsizei \<Rightarrow> GLenum \<Rightarrow> GLsizei \<Rightarrow> GLsizei \<Rightarrow> abort + renderbuffer" where
  "renderbuffer4 gl generated samples internal_format the_width the_height =
     (if \<not> ndebug gl \<and> \<not> samples \<le>s max_samples gl then Inl Assertion_failed
      else if \<not> ndebug gl \<and> \<not> the_width \<le>s max_renderbuffer_size gl then Inl Assertion_failed
      else if \<not> ndebug gl \<and> \<not> the_height \<le>s max_renderbuffer_size gl then Inl Assertion_failed
      else Inr \<lparr> m_object = generated, m_width = the_width, m_height = the_height \<rparr>)"

text \<open>\<open>renderbuffer( GLenum internal_format, GLsizei the_width, GLsizei the_height )\<close>\<close>

definition renderbuffer3 ::
  "gl_context \<Rightarrow> GLuint \<Rightarrow> GLenum \<Rightarrow> GLsizei \<Rightarrow> GLsizei \<Rightarrow> abort + renderbuffer" where
  "renderbuffer3 gl generated internal_format the_width the_height =
     renderbuffer4 gl generated 0 internal_format the_width the_height"

definition width :: "renderbuffer \<Rightarrow> GLsizei" where
  "width rb = m_width rb"

definition height :: "renderbuffer \<Rightarrow> GLsizei" where
  "height rb = m_width rb"

section \<open>Properties of the resource handle\<close>

lemma holders_upd_Some:
  "{k. (f(a \<mapsto> m)) k = Some g} =
     (if m = g then insert a {k. f k = Some g} else {k. f k = Some g} - {a})"
  by auto

lemma holders_upd_None: "{k. (f(a := None)) k = Some g} = {k. f k = Some g} - {a}"
  by auto

lemma member_of_few: "a \<in> S \<Longrightarrow> S = {} \<or> (\<exists>k. S = {k}) \<Longrightarrow> S = {a}"
  by blast

lemma member_of_singleton: "a \<in> S \<Longrightarrow> S = {k} \<Longrightarrow> k = a"
  by blast

lemma exclusive_single: "exclusive g ((\<lambda>h. None)(0 \<mapsto> g)) []"
  by (simp add: exclusive_def holders_upd_Some)

lemma exclusive_move_construct:
  assumes ex: "exclusive g f d" and g: "g \<noteq> 0"
    and fresh: "f h = None" and src: "f other = Some n"
  shows "exclusive g (f(h \<mapsto> n, other \<mapsto> 0)) d"
proof -
  from fresh src have ne: "h \<noteq> other" by auto
  from ex have zeros: "\<forall>k m. f k = Some m \<longrightarrow> m = g \<or> m = 0"
    by (simp add: exclusive_def)
  with src have n: "n = g \<or> n = 0" by blast
  have z: "\<forall>k m. (f(h \<mapsto> n, other \<mapsto> 0)) k = Some m \<longrightarrow> m = g \<or> m = 0"
    using zeros n by simp
  have holders: "{k. (f(h \<mapsto> n, other \<mapsto> 0)) k = Some g} =
      (if n = g then {h} else {k. f k = Some g})"
  proof (cases "n = g")
    case True
    with src have "other \<in> {k. f k = Some g}" by simp
    moreover from ex have "{k. f k = Some g} = {} \<or> (\<exists>k. {k. f k = Some g} = {k})"
      by (auto simp: exclusive_def split: if_splits)
    ultimately have "{k. f k = Some g} = {other}" by (rule member_of_few)
    with True g ne show ?thesis
      by (simp add: holders_upd_Some) auto
  next
    case False
    with src have "other \<notin> {k. f k = Some g}" by simp
    moreover from fresh have "h \<notin> {k. f k = Some g}" by simp
    ultimately show ?thesis using False g
      by auto
  qed
  show ?thesis
  proof (cases "g \<in> set d")
    case True
    with ex have c: "count_list d g = 1" "{k. f k = Some g} = {}"
      by (simp_all add: exclusive_def)
    with src have "n \<noteq> g" by auto
    with True c z holders show ?thesis
      by (simp add: exclusive_def del: fun_upd_apply)
  next
    case False
    with ex have "\<exists>k. {k. f k = Some g} = {k}"
      by (simp add: exclusive_def)
    with False z holders show ?thesis
      by (simp add: exclusive_def del: fun_upd_apply)
  qed
qed

lemma exclusive_move_assign:
  assumes ex: "exclusive g f d" and g: "g \<noteq> 0"
    and dst: "f h = Some a" and src: "f other = Some b"
  shows "exclusive g (f(h \<mapsto> b, other \<mapsto> a)) d"
proof (cases "h = other")
  case True
  with dst src have "f(h \<mapsto> b, other \<mapsto> a) = f" by (auto simp: fun_eq_iff)
  with ex show ?thesis by simp
next
  case ne: False
  from ex have zeros: "\<forall>k m. f k = Some m \<longrightarrow> m = g \<or> m = 0"
    by (simp add: exclusive_def)
  with src dst have ab: "a = g \<or> a = 0" "b = g \<or> b = 0" by blast+
  have z: "\<forall>k m. (f(h \<mapsto> b, other \<mapsto> a)) k = Some m \<longrightarrow> m = g \<or> m = 0"
    using zeros ab by simp
  from ex have few: "{k. f k = Some g} = {} \<or> (\<exists>k. {k. f k = Some g} = {k})"
    by (auto simp: exclusive_def split: if_splits)
  have holders: "{k. (f(h \<mapsto> b, other \<mapsto> a)) k = Some g} =
      (if a = g then {other} else if b = g then {h} else {k. f k = Some g})"
  proof -
    consider "a = g" | "a \<noteq> g" "b = g" | "a \<noteq> g" "b \<noteq> g" by blast
    then show ?thesis
    proof cases
      case 1
      with dst have "h \<in> {k. f k = Some g}" by simp
      from this few have "{k. f k = Some g} = {h}" by (rule member_of_few)
      with src ne have "b \<noteq> g" by auto
      with 1 \<open>{k. f k = Some g} = {h}\<close> ne show ?thesis
        by (simp add: holders_upd_Some) auto
    next
      case 2
      with src have "other \<in> {k. f k = Some g}" by simp
      from this few have "{k. f k = Some g} = {other}" by (rule member_of_few)
      with 2 ne show ?thesis
        by (simp add: holders_upd_Some) auto
    next
      case 3
      with dst src have "h \<notin> {k. f k = Some g}" "other \<notin> {k. f k = Some g}" by simp_all
      with 3 show ?thesis
        by auto
    qed
  qed
  show ?thesis
  proof (cases "g \<in> set d")
    case True
    with ex have c: "count_list d g = 1" "{k. f k = Some g} = {}"
      by (simp_all add: exclusive_def)
    with src dst have "a \<noteq> g" "b \<noteq> g" by auto
    with True c z holders show ?thesis
      by (simp add: exclusive_def del: fun_upd_apply)
  next
    case False
    with ex have "\<exists>k. {k. f k = Some g} = {k}"
      by (simp add: exclusive_def)
    with False z holders show ?thesis
      by (simp add: exclusive_def del: fun_upd_apply)
  qed
qed

lemma exclusive_destroy:
  assumes ex: "exclusive g f d" and live: "f h = Some n"
  shows "exclusive g (f(h := None)) (d @ [n])"
proof -
  from ex have zeros: "\<forall>k m. f k = Some m \<longrightarrow> m = g \<or> m = 0"
    by (simp add: exclusive_def)
  then have z: "\<forall>k m. (f(h := None)) k = Some m \<longrightarrow> m = g \<or> m = 0"
    by simp
  show ?thesis
  proof (cases "g \<in> set d")
    case True
    with ex have c: "count_list d g = 1" "{k. f k = Some g} = {}"
      by (simp_all add: exclusive_def)
    with live have "n \<noteq> g" by auto
    with True c z show ?thesis
      by (simp add: exclusive_def holders_upd_None del: fun_upd_apply)
  next
    case False
    then have c0: "count_list d g = 0" by (simp add: count_list_0_iff)
    from False ex obtain k where k: "{k. f k = Some g} = {k}"
      by (auto simp: exclusive_def)
    show ?thesis
    proof (cases "n = g")
      case True
      with live have "h \<in> {k. f k = Some g}" by simp
      from this k have "k = h" by (rule member_of_singleton)
      with True False c0 k z show ?thesis
        by (simp add: exclusive_def holders_upd_None del: fun_upd_apply)
    next
      case ng: False
      with live have "h \<notin> {k. f k = Some g}" by simp
      with k have "k \<noteq> h" by blast
      with ng False k z show ?thesis
        by (simp add: exclusive_def holders_upd_None del: fun_upd_apply)
    qed
  qed
qed

lemma object_move_construct_Some:
  "object_move_construct h other w = Some w' \<longleftrightarrow>
     (\<exists>n. objects w h = None \<and> objects w other = Some n
          \<and> w' = w\<lparr> objects := (objects w)(h \<mapsto> n, other \<mapsto> 0) \<rparr>)"
  by (cases "objects w h"; cases "objects w other") (auto simp: object_move_construct_def)

lemma object_move_assign_Some:
  "object_move_assign h other w = Some w' \<longleftrightarrow>
     (\<exists>a b. objects w h = Some a \<and> objects w other = Some b
          \<and> w' = w\<lparr> objects := (objects w)(h \<mapsto> b, other \<mapsto> a) \<rparr>)"
  by (cases "objects w h"; cases "objects w other") (auto simp: object_move_assign_def)

lemma object_destroy_Some:
  "object_destroy h w = Some w' \<longleftrightarrow>
     (\<exists>n. objects w h = Some n
          \<and> w' = w\<lparr> objects := (objects w)(h := None), deleted := deleted w @ [n] \<rparr>)"
  by (cases "objects w h") (auto simp: object_destroy_def)

lemma owned_once_op:
  assumes "owned_once g w" "g \<noteq> 0" "apply_handle_op x w = Some w'"
  shows "owned_once g w'"
proof (cases x)
  case (Move_construct h other)
  with assms(3) obtain n where "objects w h = None" "objects w other = Some n"
    "w' = w\<lparr> objects := (objects w)(h \<mapsto> n, other \<mapsto> 0) \<rparr>"
    by (auto simp: object_move_construct_Some)
  with assms(1,2) show ?thesis
    by (simp add: owned_once_def exclusive_move_construct del: fun_upd_apply)
next
  case (Move_assign h other)
  with assms(3) obtain a b where "objects w h = Some a" "objects w other = Some b"
    "w' = w\<lparr> objects := (objects w)(h \<mapsto> b, other \<mapsto> a) \<rparr>"
    by (auto simp: object_move_assign_Some)
  with assms(1,2) show ?thesis
    by (simp add: owned_once_def exclusive_move_assign del: fun_upd_apply)
next
  case (Destroy h)
  with assms(3) obtain n where "objects w h = Some n"
    "w' = w\<lparr> objects := (objects w)(h := None), deleted := deleted w @ [n] \<rparr>"
    by (auto simp: object_destroy_Some)
  with assms(1) show ?thesis
    by (simp add: owned_once_def exclusive_destroy del: fun_upd_apply)
qed

lemma owned_once_ops:
  "owned_once g w \<Longrightarrow> g \<noteq> 0 \<Longrightarrow> apply_handle_ops xs w = Some w' \<Longrightarrow> owned_once g w'"
proof (induction xs arbitrary: w)
  case Nil
  then show ?case by simp
next
  case (Cons x xs)
  from Cons.prems(3) obtain v where v: "apply_handle_op x w = Some v" "apply_handle_ops xs v = Some w'"
    by (auto split: option.splits)
  from Cons.prems(1,2) v(1) have "owned_once g v" by (rule owned_once_op)
  then show ?case using Cons.prems(2) v(2) by (rule Cons.IH)
qed

lemma owned_once_single_handle: "owned_once g (single_handle g)"
  by (simp add: owned_once_def single_handle_def exclusive_single del: fun_upd_apply)

lemma owned_once_released:
  assumes "owned_once g w" "\<forall>h. objects w h = None"
  shows "count_list (deleted w) g = 1"
proof -
  from assms(2) have "{h. objects w h = Some g} = {}" by simp
  with assms(1) show ?thesis
    by (auto simp: owned_once_def exclusive_def split: if_splits)
qed

lemma owned_once_at_most_once:
  assumes "owned_once g w"
  shows "count_list (deleted w) g \<le> 1"
  using assms by (auto simp: owned_once_def exclusive_def count_list_0_iff split: if_splits)

text \<open>
  Claim C2, as amended. Take one constructed handle whose generated name is not \<open>0\<close>
  and any sequence of move constructions, move assignments and destructions that C++
  allows. \<open>Deleter\<close> is never called twice with the generated name, once all objects are
  destroyed it has been called with it exactly once, and every live object holds the
  generated name or \<open>0\<close>. A move construction leaves \<open>0\<close> in its source and the source's
  name in the new object; a move assignment exchanges the names of its two objects, so
  that its source then holds what the target held; neither calls \<open>Deleter\<close>.
\<close>

theorem handle_chain_releases_once:
  "(generated \<noteq> 0 \<and> apply_handle_ops xs (single_handle generated) = Some w \<longrightarrow>
      count_list (deleted w) generated \<le> 1
      \<and> ((\<forall>h. name h w = None) \<longrightarrow> count_list (deleted w) generated = 1)
      \<and> (\<forall>h n. name h w = Some n \<longrightarrow> n = generated \<or> n = 0))
   \<and> (object_move_construct h other w1 = Some w2 \<longrightarrow>
        name other w2 = Some 0 \<and> name h w2 = name other w1 \<and> deleted w2 = deleted w1)
   \<and> (object_move_assign h' other' w3 = Some w4 \<longrightarrow>
        name h' w4 = name other' w3 \<and> name other' w4 = name h' w3 \<and> deleted w4 = deleted w3)"
proof (intro conjI impI)
  assume a: "generated \<noteq> 0 \<and> apply_handle_ops xs (single_handle generated) = Some w"
  with owned_once_single_handle have o: "owned_once generated w"
    by (blast intro: owned_once_ops)
  then show "count_list (deleted w) generated \<le> 1"
    by (rule owned_once_at_most_once)
  show "count_list (deleted w) generated = 1" if "\<forall>h. name h w = None"
    using o that by (simp add: owned_once_released name_def)
  from o show "\<forall>h n. name h w = Some n \<longrightarrow> n = generated \<or> n = 0"
    by (simp add: owned_once_def exclusive_def name_def)
next
  assume "object_move_construct h other w1 = Some w2"
  then obtain n where "objects w1 h = None" "objects w1 other = Some n"
    "w2 = w1\<lparr> objects := (objects w1)(h \<mapsto> n, other \<mapsto> 0) \<rparr>"
    by (auto simp: object_move_construct_Some)
  then show "name other w2 = Some 0" "name h w2 = name other w1" "deleted w2 = deleted w1"
    by (auto simp: name_def)
next
  assume "object_move_assign h' other' w3 = Some w4"
  then obtain a b where "objects w3 h' = Some a" "objects w3 other' = Some b"
    "w4 = w3\<lparr> objects := (objects w3)(h' \<mapsto> b, other' \<mapsto> a) \<rparr>"
    by (auto simp: object_move_assign_Some)
  then show "name h' w4 = name other' w3" "name other' w4 = name h' w3" "deleted w4 = deleted w3"
    by (auto simp: name_def)
qed

lemma run_chain:
  "apply_handle_ops [Move_construct 1 0, Move_assign 0 1, Destroy 1, Destroy 0] (single_handle 42)
     = Some \<lparr> objects = (\<lambda>h. None), deleted = [0, 42] \<rparr>"
  by (simp add: single_handle_def object_move_construct_def object_move_assign_def
      object_destroy_def fun_eq_iff)

theorem handle_chain_releases_once_witness:
  "(42 :: GLuint) \<noteq> 0
   \<and> apply_handle_ops [Move_construct 1 0, Move_assign 0 1, Destroy 1, Destroy 0] (single_handle 42)
       = Some \<lparr> objects = (\<lambda>h. None), deleted = [0, 42] \<rparr>
   \<and> (\<forall>h. name h \<lparr> objects = (\<lambda>h. None), deleted = [0, 42] \<rparr> = None)
   \<and> count_list (deleted \<lparr> objects = (\<lambda>h. None), deleted = [0, 42 :: GLuint] \<rparr>) 42 = 1
   \<and> object_move_construct 1 0 (single_handle 42)
       = Some \<lparr> objects = (\<lambda>h. None)(0 \<mapsto> 0, 1 \<mapsto> 42), deleted = [] \<rparr>
   \<and> name 0 \<lparr> objects = (\<lambda>h. None)(0 \<mapsto> 0, 1 \<mapsto> 42), deleted = [] \<rparr> = Some 0
   \<and> object_move_assign 0 1 \<lparr> objects = (\<lambda>h. None)(0 \<mapsto> 0, 1 \<mapsto> 42), deleted = [] \<rparr>
       = Some \<lparr> objects = (\<lambda>h. None)(0 \<mapsto> 42, 1 \<mapsto> 0), deleted = [] \<rparr>
   \<and> name 1 \<lparr> objects = (\<lambda>h. None)(0 \<mapsto> 42, 1 \<mapsto> 0), deleted = [] \<rparr> = Some 0"
proof -
  have g: "(42 :: GLuint) \<noteq> 0" by simp
  have mc: "object_move_construct 1 0 (single_handle 42)
       = Some \<lparr> objects = (\<lambda>h. None)(0 \<mapsto> 0, 1 \<mapsto> 42), deleted = [] \<rparr>"
    by (simp add: single_handle_def object_move_construct_def fun_eq_iff)
  have ma: "object_move_assign 0 1 \<lparr> objects = (\<lambda>h. None)(0 \<mapsto> 0, 1 \<mapsto> 42), deleted = [] \<rparr>
       = Some \<lparr> objects = (\<lambda>h. None)(0 \<mapsto> 42, 1 \<mapsto> 0), deleted = [] \<rparr>"
    by (simp add: object_move_assign_def fun_eq_iff)
  have dead: "\<forall>h. name h \<lparr> objects = (\<lambda>h. None), deleted = [0, 42] \<rparr> = None"
    by (simp add: name_def)
  note t = handle_chain_releases_once [of 42
      "[Move_construct 1 0, Move_assign 0 1, Destroy 1, Destroy 0]"
      "\<lparr> objects = (\<lambda>h. None), deleted = [0, 42] \<rparr>"
      1 0 "single_handle 42" "\<lparr> objects = (\<lambda>h. None)(0 \<mapsto> 0, 1 \<mapsto> 42), deleted = [] \<rparr>"
      0 1 "\<lparr> objects = (\<lambda>h. None)(0 \<mapsto> 0, 1 \<mapsto> 42), deleted = [] \<rparr>"
      "\<lparr> objects = (\<lambda>h. None)(0 \<mapsto> 42, 1 \<mapsto> 0), deleted = [] \<rparr>"]
  from t g run_chain dead
  have c: "count_list (deleted \<lparr> objects = (\<lambda>h. None), deleted = [0, 42 :: GLuint] \<rparr>) 42 = 1"
    by blast
  from t mc
  have n0: "name 0 \<lparr> objects = (\<lambda>h. None)(0 \<mapsto> 0, 1 \<mapsto> 42), deleted = [] \<rparr> = Some 0"
    by blast
  from t ma
  have "name 1 \<lparr> objects = (\<lambda>h. None)(0 \<mapsto> 42, 1 \<mapsto> 0), deleted = [] \<rparr>
          = name 0 \<lparr> objects = (\<lambda>h. None)(0 \<mapsto> 0, 1 \<mapsto> 42), deleted = [] \<rparr>"
    by blast
  with n0
  have n1: "name 1 \<lparr> objects = (\<lambda>h. None)(0 \<mapsto> 42, 1 \<mapsto> 0), deleted = [] \<rparr> = Some 0"
    by simp
  from g run_chain dead c mc n0 ma n1 show ?thesis
    by (intro conjI)
qed

text \<open>
  Claim C2 as stated fails: a moved-from handle need not report \<open>0\<close>. Object \<open>0\<close> is
  constructed with the name \<open>42\<close> and object \<open>1\<close> is move-constructed from it, which
  leaves \<open>0\<close> in object \<open>0\<close>. Then object \<open>0\<close> is move-assigned to object \<open>1\<close>: the swap
  hands \<open>42\<close> back to object \<open>0\<close>, the moved-from one.
\<close>

theorem moved_from_handle_counterexample:
  "Option.bind (apply_handle_ops [Move_construct 1 0] (single_handle 42)) (name 0) = Some 0
   \<and> Option.bind (apply_handle_ops [Move_construct 1 0, Move_assign 1 0] (single_handle 42)) (name 0) = Some 42
   \<and> Option.bind (apply_handle_ops [Move_construct 1 0, Move_assign 1 0] (single_handle 42)) (name 1) = Some 0"
  by (simp add: single_handle_def object_move_construct_def object_move_assign_def name_def)

section \<open>Properties of the renderbuffer\<close>

text \<open>
  Claim C9. Whenever a constructor of \<open>gls::renderbuffer\<close> returns, called with width \<open>w\<close>
  and height \<open>h\<close>, the accessor \<open>height()\<close> returns the stored width \<open>w\<close>, as \<open>width()\<close>
  does; the height \<open>h\<close> is stored in \<open>m_height\<close> but no accessor reads it.
\<close>

theorem renderbuffer_height_returns_width:
  assumes "renderbuffer4 gl generated samples internal_format w h = Inr rb
         \<or> renderbuffer3 gl generated internal_format w h = Inr rb"
  shows "height rb = w \<and> width rb = w \<and> m_width rb = w \<and> m_height rb = h"
  using assms
  by (auto simp: renderbuffer3_def renderbuffer4_def height_def width_def split: if_splits)

theorem renderbuffer_height_returns_width_witness:
  "renderbuffer3 \<lparr> ndebug = False, max_samples = 4, max_renderbuffer_size = 1024 \<rparr> 7 33190 100 50
     = Inr \<lparr> m_object = 7, m_width = 100, m_height = 50 \<rparr>
   \<and> height \<lparr> m_object = 7, m_width = 100, m_height = 50 \<rparr> = (100 :: GLsizei)
   \<and> width \<lparr> m_object = 7, m_width = 100, m_height = 50 \<rparr> = (100 :: GLsizei)
   \<and> height \<lparr> m_object = 7, m_width = 100, m_height = 50 \<rparr> \<noteq> (50 :: GLsizei)"
proof -
  have r: "renderbuffer3 \<lparr> ndebug = False, max_samples = 4, max_renderbuffer_size = 1024 \<rparr> 7 33190 100 50
     = Inr \<lparr> m_object = 7, m_width = 100, m_height = 50 \<rparr>"
    by (simp add: renderbuffer3_def renderbuffer4_def word_sle_eq)
  from renderbuffer_height_returns_width [OF disjI2, OF r] r show ?thesis
    by simp
qed

section \<open>Properties of the camera\<close>

subsection \<open>The range of the scalar type\<close>

lemma huge_ge: "3 / 2 \<le> huge TYPE(('e::len, 'f::len) scalar)"
proof -
  have f: "(2::real) \<le> 2 ^ LENGTH('f)"
    using power_increasing [of 1 "LENGTH('f)" "2::real"] by simp
  have "1 / (2::real) ^ LENGTH('f) \<le> 1 / 2"
    using frac_le [of 1 1 2 "(2::real) ^ LENGTH('f)"] f by simp
  then have a: "3 / 2 \<le> 2 - 1 / (2::real) ^ LENGTH('f)" by linarith
  have b: "(1::real) \<le> 2 ^ (2 ^ (LENGTH('e) - 1) - 1)" by simp
  have "3 / 2 * 1 \<le> (2 - 1 / (2::real) ^ LENGTH('f)) * 2 ^ (2 ^ (LENGTH('e) - 1) - 1)"
    using a b by (intro mult_mono) linarith+
  then show ?thesis by (simp add: huge_def)
qed

lemma tiny_pos: "0 < tiny TYPE(('e::len, 'f::len) scalar)"
  by (simp add: tiny_def)

lemma tiny_le_half: "tiny TYPE(('e::len, 'f::len) scalar) \<le> 1 / 2"
proof -
  have "1 \<le> (2::nat) ^ (LENGTH('e) - 1)" by simp
  moreover have "1 \<le> LENGTH('f)" by (simp add: Suc_leI)
  ultimately have "1 \<le> 2 ^ (LENGTH('e) - 1) + LENGTH('f) - 1" by linarith
  then have "(2::real) ^ 1 \<le> 2 ^ (2 ^ (LENGTH('e) - 1) + LENGTH('f) - 1)"
    by (intro power_increasing) simp_all
  then show ?thesis by (simp add: tiny_def field_simps)
qed


lemma to_range_exact:
  "r = 0 \<or> tiny TYPE(('e::len, 'f::len) scalar) < \<bar>r\<bar> \<Longrightarrow> \<bar>r\<bar> \<le> huge TYPE(('e, 'f) scalar)
   \<Longrightarrow> (to_range r :: ('e, 'f) scalar) = Fin r"
  by (auto simp add: to_range_def)

lemma to_range_0 [simp]: "(to_range 0 :: ('e::len, 'f::len) scalar) = Fin 0"
  using tiny_pos [where 'e='e and 'f='f] huge_ge [where 'e='e and 'f='f]
  by (simp add: to_range_def)

lemma to_range_1 [simp]: "(to_range 1 :: ('e::len, 'f::len) scalar) = Fin 1"
  using tiny_le_half [where 'e='e and 'f='f] huge_ge [where 'e='e and 'f='f]
  by (simp add: to_range_def)

lemma to_range_minus_1 [simp]: "(to_range (- 1) :: ('e::len, 'f::len) scalar) = Fin (- 1)"
  using tiny_le_half [where 'e='e and 'f='f] huge_ge [where 'e='e and 'f='f]
  by (simp add: to_range_def)

lemma feq_self: "feq x x \<longleftrightarrow> x \<noteq> NaN"
  by (cases x) simp_all



subsection \<open>The product of two matrices\<close>

lemma upt_16: "[0 ..< 16] = [0, 1, 2, 3, 4, 5, 6, 7, 8, 9, 10, 11, 12, 13, 14, 15 :: nat]"
  by (simp add: upt_rec)

lemma nth_Suc_numerals:
  "xs ! Suc 0 = xs ! 1" "xs ! Suc (Suc 0) = xs ! 2" "xs ! Suc (Suc (Suc 0)) = xs ! 3"
  by (simp_all add: numeral_2_eq_2 numeral_3_eq_3)

lemma matrix_mult_is_product: "matrix_mult m n = column_major_product m n"
  unfolding matrix_mult_def column_major_product_def upt_16
  by (simp add: nth_Suc_numerals del: One_nat_def)

lemma length_column_major_product: "length (column_major_product m n) = 16"
  by (simp add: column_major_product_def)

lemma column_major_product_entry_10:
  "column_major_product m n ! 10 = m ! 2 * n ! 8 + m ! 6 * n ! 9 + m ! 10 * n ! 10 + m ! 14 * n ! 11"
  unfolding matrix_mult_is_product [symmetric] by (simp add: matrix_mult_def)

subsection \<open>The three blocks of update\<close>

lemma projection_block_frame:
  "m_projection (projection_block c) = perspective (m_fov c) (m_aspect c) (m_near c) (m_far c)"
  "m_view (projection_block c) = m_view c"
  "m_matrix (projection_block c) = m_matrix c"
  "m_position (projection_block c) = m_position c"
  "m_direction (projection_block c) = m_direction c"
  "m_up (projection_block c) = m_up c"
  "m_fov (projection_block c) = m_fov c"
  "m_aspect (projection_block c) = m_aspect c"
  "m_near (projection_block c) = m_near c"
  "m_far (projection_block c) = m_far c"
  "m_projection_dirty (projection_block c) = False"
  "m_view_dirty (projection_block c) = m_view_dirty c"
  "m_matrix_dirty (projection_block c) = m_matrix_dirty c"
  by (simp_all add: projection_block_def perspective_def)

lemma view_block_frame:
  "m_projection (view_block c) = m_projection c"
  "m_view (view_block c) = look_at (m_position c) (m_direction c) (m_up c)"
  "m_matrix (view_block c) = m_matrix c"
  "m_position (view_block c) = m_position c"
  "m_direction (view_block c) = m_direction c"
  "m_up (view_block c) = m_up c"
  "m_fov (view_block c) = m_fov c"
  "m_aspect (view_block c) = m_aspect c"
  "m_near (view_block c) = m_near c"
  "m_far (view_block c) = m_far c"
  "m_projection_dirty (view_block c) = m_projection_dirty c"
  "m_view_dirty (view_block c) = False"
  "m_matrix_dirty (view_block c) = m_matrix_dirty c"
  by (simp_all add: view_block_def look_at_def matrix_mult_is_product split: prod.splits)

lemma matrix_block_frame:
  "m_projection (matrix_block c) = m_projection c"
  "m_view (matrix_block c) = m_view c"
  "m_matrix (matrix_block c) = column_major_product (m_projection c) (m_view c)"
  "m_position (matrix_block c) = m_position c"
  "m_direction (matrix_block c) = m_direction c"
  "m_up (matrix_block c) = m_up c"
  "m_fov (matrix_block c) = m_fov c"
  "m_aspect (matrix_block c) = m_aspect c"
  "m_near (matrix_block c) = m_near c"
  "m_far (matrix_block c) = m_far c"
  "m_projection_dirty (matrix_block c) = m_projection_dirty c"
  "m_view_dirty (matrix_block c) = m_view_dirty c"
  "m_matrix_dirty (matrix_block c) = False"
  by (simp_all add: matrix_block_def matrix_mult_is_product)

lemmas block_frame = projection_block_frame view_block_frame matrix_block_frame

lemma update_log:
  "fst (update c) =
     (if m_projection_dirty c then [Projection] else [])
     @ (if m_view_dirty c then [View] else [])
     @ (if m_matrix_dirty c then [Matrix] else [])"
  by (simp add: update_def block_frame)

lemma update_clean:
  "\<not> m_projection_dirty (snd (update c))"
  "\<not> m_view_dirty (snd (update c))"
  "\<not> m_matrix_dirty (snd (update c))"
  by (simp_all add: update_def block_frame)

lemma update_projection:
  "m_projection (snd (update c)) =
     (if m_projection_dirty c then perspective (m_fov c) (m_aspect c) (m_near c) (m_far c)
      else m_projection c)"
  by (simp add: update_def block_frame)

lemma update_view:
  "m_view (snd (update c)) =
     (if m_view_dirty c then look_at (m_position c) (m_direction c) (m_up c) else m_view c)"
  by (simp add: update_def block_frame)

lemma update_matrix:
  "m_matrix (snd (update c)) =
     (if m_matrix_dirty c
      then column_major_product (m_projection (snd (update c))) (m_view (snd (update c)))
      else m_matrix c)"
  by (simp add: update_def block_frame)

lemma update_parameters:
  "m_position (snd (update c)) = m_position c"
  "m_direction (snd (update c)) = m_direction c"
  "m_up (snd (update c)) = m_up c"
  "m_fov (snd (update c)) = m_fov c"
  "m_aspect (snd (update c)) = m_aspect c"
  "m_near (snd (update c)) = m_near c"
  "m_far (snd (update c)) = m_far c"
  by (simp_all add: update_def block_frame)

lemma update_idle:
  "\<not> m_projection_dirty c \<Longrightarrow> \<not> m_view_dirty c \<Longrightarrow> \<not> m_matrix_dirty c \<Longrightarrow> update c = ([], c)"
  by (simp add: update_def)

lemma update_twice: "update (snd (update c)) = ([], snd (update c))"
  by (rule update_idle) (rule update_clean)+

lemma get_is_update:
  "get_projection c = (m_projection (snd (update c)), update c)"
  "get_view c = (m_view (snd (update c)), update c)"
  "get_matrix c = (m_matrix (snd (update c)), update c)"
  by (simp_all add: get_projection_def get_view_def get_matrix_def split: prod.splits)

subsection \<open>Dirty flags and caches over sequences of calls\<close>

lemma rotate_quaternion_frame:
  "m_projection (rotate_quaternion q c) = m_projection c"
  "m_view (rotate_quaternion q c) = m_view c"
  "m_matrix (rotate_quaternion q c) = m_matrix c"
  "m_position (rotate_quaternion q c) = m_position c"
  "m_fov (rotate_quaternion q c) = m_fov c"
  "m_aspect (rotate_quaternion q c) = m_aspect c"
  "m_near (rotate_quaternion q c) = m_near c"
  "m_far (rotate_quaternion q c) = m_far c"
  "m_projection_dirty (rotate_quaternion q c) = m_projection_dirty c"
  "m_view_dirty (rotate_quaternion q c) = True"
  "m_matrix_dirty (rotate_quaternion q c) = True"
  by (simp_all add: rotate_quaternion_def split: prod.splits)

lemma set_orientation_taitbryan_frame:
  "m_projection (set_orientation_taitbryan y p r c) = m_projection c"
  "m_view (set_orientation_taitbryan y p r c) = m_view c"
  "m_matrix (set_orientation_taitbryan y p r c) = m_matrix c"
  "m_position (set_orientation_taitbryan y p r c) = m_position c"
  "m_fov (set_orientation_taitbryan y p r c) = m_fov c"
  "m_aspect (set_orientation_taitbryan y p r c) = m_aspect c"
  "m_near (set_orientation_taitbryan y p r c) = m_near c"
  "m_far (set_orientation_taitbryan y p r c) = m_far c"
  "m_projection_dirty (set_orientation_taitbryan y p r c) = m_projection_dirty c"
  "m_view_dirty (set_orientation_taitbryan y p r c) = True"
  "m_matrix_dirty (set_orientation_taitbryan y p r c) = True"
  unfolding set_orientation_taitbryan_def Let_def by (simp_all split: prod.splits)

lemma caches_current_update: "caches_current c \<Longrightarrow> caches_current (snd (update c))"
  by (simp add: caches_current_def update_clean update_matrix update_projection update_view
      update_parameters split: if_splits)

lemma caches_current_after_update:
  assumes "caches_current c"
  shows "m_projection (snd (update c)) = perspective (m_fov c) (m_aspect c) (m_near c) (m_far c)"
    and "m_view (snd (update c)) = look_at (m_position c) (m_direction c) (m_up c)"
    and "m_matrix (snd (update c))
           = column_major_product (m_projection (snd (update c))) (m_view (snd (update c)))"
  using caches_current_update [OF assms]
  by (simp_all add: caches_current_def update_clean update_parameters)

lemma caches_current_set_position: "caches_current c \<Longrightarrow> caches_current (set_position v c)"
  by (simp add: caches_current_def set_position_def)

lemma caches_current_call:
  assumes "caches_current c"
  shows "caches_current (apply_call k c)"
proof (cases k)
  case (Move v)
  then show ?thesis using assms
    by (simp add: move_def caches_current_set_position split: prod.splits)
next
  case (Move_relative v)
  then show ?thesis using assms
    by (simp add: move_relative_def move_def Let_def caches_current_set_position split: prod.splits)
next
  case (Rotate q)
  then show ?thesis using assms by (simp add: caches_current_def rotate_quaternion_frame)
next
  case (Rotate_axis v a)
  then show ?thesis using assms
    by (simp add: caches_current_def rotate_axis_def rotate_quaternion_frame split: prod.splits)
next
  case (Set_orientation_taitbryan y p r)
  then show ?thesis using assms by (simp add: caches_current_def set_orientation_taitbryan_frame)
next
  case Get_view
  then show ?thesis using assms by (simp add: get_is_update caches_current_update)
next
  case Get_projection
  then show ?thesis using assms by (simp add: get_is_update caches_current_update)
next
  case Get_matrix
  then show ?thesis using assms by (simp add: get_is_update caches_current_update)
next
  case (Set_fov x)
  then show ?thesis using assms by (simp add: caches_current_def set_fov_def)
next
  case (Set_aspect x)
  then show ?thesis using assms by (simp add: caches_current_def set_aspect_def)
next
  case (Set_near_distance x)
  then show ?thesis using assms by (simp add: caches_current_def set_near_distance_def)
next
  case (Set_far_distance x)
  then show ?thesis using assms by (simp add: caches_current_def set_far_distance_def)
next
  case (Set_position v)
  then show ?thesis using assms by (simp add: caches_current_set_position)
next
  case (Set_direction v)
  then show ?thesis using assms by (simp add: caches_current_def set_direction_def Let_def)
next
  case (Set_up v)
  then show ?thesis using assms by (simp add: caches_current_def set_up_def Let_def)
qed

lemma caches_current_calls: "caches_current c \<Longrightarrow> caches_current (apply_calls ks c)"
  by (induction ks arbitrary: c) (simp_all add: caches_current_call)

lemma caches_current_new_camera: "caches_current (new_camera p0 v0 x0 k)"
  by (cases k) (simp_all add: caches_current_def camera_default_def camera4_def camera7_def)

lemma column_major_product_nth:
  "i < 16 \<Longrightarrow>
   column_major_product m n ! i =
     m ! (i mod 4) * n ! (4 * (i div 4))
     + m ! (i mod 4 + 4) * n ! (4 * (i div 4) + 1)
     + m ! (i mod 4 + 8) * n ! (4 * (i div 4) + 2)
     + m ! (i mod 4 + 12) * n ! (4 * (i div 4) + 3)"
  by (simp add: column_major_product_def)

lemma single_range:
  "huge TYPE(single) = 340282346638528859811704183484516925440"
  "tiny TYPE(single) = 1 / 1427247692705959881058285969449495136382746624"
  by (simp_all add: huge_def tiny_def)

subsection \<open>Recomputation on a query\<close>

text \<open>
  Claim C3, as amended. Each of the three queries is \<open>update\<close> followed by a read of the
  cached matrix. For every camera, \<open>update\<close> recomputes the projection matrix if and
  only if the projection-dirty flag is set, the matrix it then stores being the
  perspective matrix of the camera's field of view, aspect ratio and near and far
  distances, and leaves that flag cleared; likewise the view matrix, the view-dirty
  flag and the view matrix of the camera's position, direction and up vector; and it
  recomputes the combined matrix if and only if the matrix-dirty flag is set, after
  the other two blocks, as the column-major product of the projection and view
  matrices as they are then, and leaves the matrix-dirty flag cleared. Consequently,
  when \<open>set_fov(x)\<close> changes the stored value and \<open>x\<close> compares equal to itself (it is
  not NaN), the next query recomputes the projection from \<open>x\<close> and the combined matrix,
  a second \<open>set_fov(x)\<close> after it changes nothing, and the query after that recomputes
  nothing.
\<close>

theorem query_recomputes_iff_dirty:
  "get_projection c = (m_projection (snd (update c)), update c)
   \<and> get_view c = (m_view (snd (update c)), update c)
   \<and> get_matrix c = (m_matrix (snd (update c)), update c)
   \<and> (case update c of (l, c') \<Rightarrow>
         (Projection \<in> set l \<longleftrightarrow> m_projection_dirty c) \<and> \<not> m_projection_dirty c'
         \<and> m_projection c' =
             (if m_projection_dirty c
              then perspective (m_fov c) (m_aspect c) (m_near c) (m_far c)
              else m_projection c)
         \<and> (View \<in> set l \<longleftrightarrow> m_view_dirty c) \<and> \<not> m_view_dirty c'
         \<and> m_view c' =
             (if m_view_dirty c then look_at (m_position c) (m_direction c) (m_up c)
              else m_view c)
         \<and> (Matrix \<in> set l \<longleftrightarrow> m_matrix_dirty c) \<and> \<not> m_matrix_dirty c'
         \<and> m_matrix c' =
             (if m_matrix_dirty c then column_major_product (m_projection c') (m_view c')
              else m_matrix c)
         \<and> l = (if m_projection_dirty c then [Projection] else [])
               @ (if m_view_dirty c then [View] else [])
               @ (if m_matrix_dirty c then [Matrix] else []))
   \<and> (feq x x \<and> \<not> feq (m_fov c) x \<longrightarrow>
         (case update (set_fov x c) of (l1, c1) \<Rightarrow>
            l1 = [Projection] @ (if m_view_dirty c then [View] else []) @ [Matrix]
            \<and> m_fov c1 = x
            \<and> m_projection c1 = perspective x (m_aspect c) (m_near c) (m_far c)
            \<and> set_fov x c1 = c1
            \<and> update (set_fov x c1) = ([], c1)))"
proof -
  have queries: "get_projection c = (m_projection (snd (update c)), update c)"
    "get_view c = (m_view (snd (update c)), update c)"
    "get_matrix c = (m_matrix (snd (update c)), update c)"
    by (rule get_is_update)+
  have flags: "case update c of (l, c') \<Rightarrow>
         (Projection \<in> set l \<longleftrightarrow> m_projection_dirty c) \<and> \<not> m_projection_dirty c'
         \<and> m_projection c' =
             (if m_projection_dirty c
              then perspective (m_fov c) (m_aspect c) (m_near c) (m_far c)
              else m_projection c)
         \<and> (View \<in> set l \<longleftrightarrow> m_view_dirty c) \<and> \<not> m_view_dirty c'
         \<and> m_view c' =
             (if m_view_dirty c then look_at (m_position c) (m_direction c) (m_up c)
              else m_view c)
         \<and> (Matrix \<in> set l \<longleftrightarrow> m_matrix_dirty c) \<and> \<not> m_matrix_dirty c'
         \<and> m_matrix c' =
             (if m_matrix_dirty c then column_major_product (m_projection c') (m_view c')
              else m_matrix c)
         \<and> l = (if m_projection_dirty c then [Projection] else [])
               @ (if m_view_dirty c then [View] else [])
               @ (if m_matrix_dirty c then [Matrix] else [])"
    using update_log [of c] update_clean [of c] update_projection [of c] update_view [of c]
      update_matrix [of c]
    by (cases "update c") (simp split: if_splits)
  have twice: "case update (set_fov x c) of (l1, c1) \<Rightarrow>
            l1 = [Projection] @ (if m_view_dirty c then [View] else []) @ [Matrix]
            \<and> m_fov c1 = x
            \<and> m_projection c1 = perspective x (m_aspect c) (m_near c) (m_far c)
            \<and> set_fov x c1 = c1
            \<and> update (set_fov x c1) = ([], c1)"
    if changed: "feq x x \<and> \<not> feq (m_fov c) x"
  proof -
    let ?d = "set_fov x c"
    have d: "?d = c\<lparr> m_fov := x, m_projection_dirty := True, m_matrix_dirty := True \<rparr>"
      using changed by (simp add: set_fov_def)
    have 1: "fst (update ?d) = [Projection] @ (if m_view_dirty c then [View] else []) @ [Matrix]"
      by (simp add: update_log d)
    have 2: "m_fov (snd (update ?d)) = x"
      by (simp add: update_parameters d)
    have 3: "m_projection (snd (update ?d)) = perspective x (m_aspect c) (m_near c) (m_far c)"
      by (simp add: update_projection d)
    have 4: "set_fov x (snd (update ?d)) = snd (update ?d)"
      using changed 2 by (simp add: set_fov_def)
    have 5: "update (set_fov x (snd (update ?d))) = ([], snd (update ?d))"
      by (simp only: 4 update_twice)
    from 1 2 3 4 5 show ?thesis by (cases "update ?d") simp
  qed
  from queries flags twice show ?thesis by blast
qed

theorem query_recomputes_iff_dirty_witness:
  "feq (Fin 1 :: single) (Fin 1)
   \<and> \<not> feq (m_fov (snd (update (camera_default [] [] [] :: (8, 23) camera)))) (Fin 1)
   \<and> \<not> m_projection_dirty (snd (update (camera_default [] [] [] :: (8, 23) camera)))
   \<and> \<not> m_view_dirty (snd (update (camera_default [] [] [] :: (8, 23) camera)))
   \<and> \<not> m_matrix_dirty (snd (update (camera_default [] [] [] :: (8, 23) camera)))
   \<and> fst (update (set_fov (Fin 1) (snd (update (camera_default [] [] [] :: (8, 23) camera)))))
       = [Projection, Matrix]
   \<and> m_projection (snd (update (set_fov (Fin 1) (snd (update (camera_default [] [] [] :: (8, 23) camera))))))
       = perspective (Fin 1) (Fin 1) (Fin 1) (Fin 1000)
   \<and> perspective (Fin 1 :: single) (Fin 1) (Fin 1) (Fin 1000) ! 10 = Fin (- (1001 / 999))
   \<and> update (set_fov (Fin 1) (snd (update (set_fov (Fin 1) (snd (update (camera_default [] [] [] :: (8, 23) camera)))))))
       = ([], snd (update (set_fov (Fin 1) (snd (update (camera_default [] [] [] :: (8, 23) camera))))))"
proof -
  let ?c = "snd (update (camera_default [] [] [] :: (8, 23) camera))"
  have fov: "m_fov ?c = Fin (314159265359 / 200000000000)"
    by (simp add: update_parameters camera_default_def camera_pi_def to_range_def single_range)
  have changed: "feq (Fin 1 :: single) (Fin 1) \<and> \<not> feq (m_fov ?c) (Fin 1)"
    by (simp add: fov)
  have clean: "\<not> m_projection_dirty ?c" "\<not> m_view_dirty ?c" "\<not> m_matrix_dirty ?c"
    by (rule update_clean)+
  have params: "m_aspect ?c = Fin 1" "m_near ?c = Fin 1" "m_far ?c = Fin 1000"
    by (simp_all add: update_parameters camera_default_def)
  have entry: "perspective (Fin 1 :: single) (Fin 1) (Fin 1) (Fin 1000) ! 10 = Fin (- (1001 / 999))"
    by (simp add: perspective_def to_range_def single_range)
  note t = query_recomputes_iff_dirty [of ?c "Fin 1",
      THEN conjunct2, THEN conjunct2, THEN conjunct2, THEN conjunct2, rule_format, OF changed]
  from t changed clean entry show ?thesis
    by (auto simp add: params split: prod.splits)
qed

text \<open>
  Claim C3 as stated fails for \<open>x\<close> = NaN. On the default camera \<open>set_fov(NaN)\<close>
  changes the stored value and the next query recomputes the projection; the second
  \<open>set_fov(NaN)\<close> finds \<open>m_fov == fov\<close> false again, marks the projection and the
  combined matrix dirty again, and the query after it recomputes both.
\<close>

theorem set_fov_nan_counterexample:
  "m_fov (camera_default [] [] [] :: (8, 23) camera) \<noteq> NaN
   \<and> m_fov (set_fov NaN (camera_default [] [] [] :: (8, 23) camera)) = NaN
   \<and> Projection \<in> set (fst (update (set_fov NaN (camera_default [] [] [] :: (8, 23) camera))))
   \<and> fst (update (set_fov NaN (snd (update (set_fov NaN (camera_default [] [] [] :: (8, 23) camera))))))
       = [Projection, Matrix]
   \<and> fst (update (set_fov NaN (snd (update (set_fov NaN (camera_default [] [] [] :: (8, 23) camera)))))) \<noteq> []"
proof -
  let ?c = "camera_default [] [] [] :: (8, 23) camera"
  have fov: "m_fov ?c = Fin (314159265359 / 200000000000)"
    by (simp add: camera_default_def camera_pi_def to_range_def single_range)
  have d: "set_fov NaN ?c = ?c\<lparr> m_fov := NaN, m_projection_dirty := True, m_matrix_dirty := True \<rparr>"
    by (simp add: set_fov_def fov)
  have again: "set_fov NaN (snd (update (set_fov NaN ?c)))
      = (snd (update (set_fov NaN ?c)))\<lparr> m_fov := NaN, m_projection_dirty := True, m_matrix_dirty := True \<rparr>"
    by (simp add: set_fov_def update_parameters d)
  show ?thesis
    by (simp add: again update_log update_clean) (simp add: d fov update_log)
qed

subsection \<open>Setters\<close>

text \<open>
  Claim C8. A setter called with a value that compares equal (\<open>==\<close>) to the stored one,
  for \<open>set_direction\<close> and \<open>set_up\<close> with a vector whose normalisation does, returns
  the camera as it was: parameters, cached matrices and dirty flags. Otherwise it
  stores the value (the normalised vector) and marks projection-dirty and matrix-dirty
  (\<open>fov\<close>, \<open>aspect\<close>, \<open>near\<close>, \<open>far\<close>) or view-dirty and matrix-dirty (\<open>position\<close>,
  \<open>direction\<close>, \<open>up\<close>), and nothing else changes.
\<close>

theorem setter_noop_or_store:
  "(feq (m_fov c) x \<longrightarrow> set_fov x c = c)
   \<and> (\<not> feq (m_fov c) x \<longrightarrow>
        set_fov x c = c\<lparr> m_fov := x, m_projection_dirty := True, m_matrix_dirty := True \<rparr>)
   \<and> (feq (m_aspect c) x \<longrightarrow> set_aspect x c = c)
   \<and> (\<not> feq (m_aspect c) x \<longrightarrow>
        set_aspect x c = c\<lparr> m_aspect := x, m_projection_dirty := True, m_matrix_dirty := True \<rparr>)
   \<and> (feq (m_near c) x \<longrightarrow> set_near_distance x c = c)
   \<and> (\<not> feq (m_near c) x \<longrightarrow>
        set_near_distance x c = c\<lparr> m_near := x, m_projection_dirty := True, m_matrix_dirty := True \<rparr>)
   \<and> (feq (m_far c) x \<longrightarrow> set_far_distance x c = c)
   \<and> (\<not> feq (m_far c) x \<longrightarrow>
        set_far_distance x c = c\<lparr> m_far := x, m_projection_dirty := True, m_matrix_dirty := True \<rparr>)
   \<and> (veq (m_position c) v \<longrightarrow> set_position v c = c)
   \<and> (\<not> veq (m_position c) v \<longrightarrow>
        set_position v c = c\<lparr> m_position := v, m_view_dirty := True, m_matrix_dirty := True \<rparr>)
   \<and> (veq (m_direction c) (vector_normalize v) \<longrightarrow> set_direction v c = c)
   \<and> (\<not> veq (m_direction c) (vector_normalize v) \<longrightarrow>
        set_direction v c =
          c\<lparr> m_direction := vector_normalize v, m_view_dirty := True, m_matrix_dirty := True \<rparr>)
   \<and> (veq (m_up c) (vector_normalize v) \<longrightarrow> set_up v c = c)
   \<and> (\<not> veq (m_up c) (vector_normalize v) \<longrightarrow>
        set_up v c = c\<lparr> m_up := vector_normalize v, m_view_dirty := True, m_matrix_dirty := True \<rparr>)"
  by (simp add: set_fov_def set_aspect_def set_near_distance_def set_far_distance_def
      set_position_def set_direction_def set_up_def Let_def)

theorem setter_noop_or_store_witness:
  "set_fov (Fin 1) (camera_default [] [] [] :: (8, 23) camera)
     = (camera_default [] [] [])\<lparr> m_fov := Fin 1, m_projection_dirty := True, m_matrix_dirty := True \<rparr>
   \<and> set_aspect (Fin 1) (camera_default [] [] [] :: (8, 23) camera) = camera_default [] [] []
   \<and> set_near_distance (Fin 1) (camera_default [] [] [] :: (8, 23) camera) = camera_default [] [] []
   \<and> set_far_distance (Fin 1) (camera_default [] [] [] :: (8, 23) camera)
     = (camera_default [] [] [])\<lparr> m_far := Fin 1, m_projection_dirty := True, m_matrix_dirty := True \<rparr>
   \<and> set_position (Fin 0, Fin 0, Fin (- 1)) (camera_default [] [] [] :: (8, 23) camera)
     = (camera_default [] [] [])
         \<lparr> m_position := (Fin 0, Fin 0, Fin (- 1)), m_view_dirty := True, m_matrix_dirty := True \<rparr>
   \<and> set_direction (Fin 0, Fin 0, Fin (- 1)) (camera_default [] [] [] :: (8, 23) camera)
     = camera_default [] [] []
   \<and> set_up (Fin 0, Fin 0, Fin (- 1)) (camera_default [] [] [] :: (8, 23) camera)
     = (camera_default [] [] [])
         \<lparr> m_up := (Fin 0, Fin 0, Fin (- 1)), m_view_dirty := True, m_matrix_dirty := True \<rparr>
   \<and> set_fov (camera_pi * Fin 90 / Fin 180) (camera_default [] [] [] :: (8, 23) camera)
     = camera_default [] [] []
   \<and> set_aspect (Fin 2) (camera_default [] [] [] :: (8, 23) camera)
     = (camera_default [] [] [])\<lparr> m_aspect := Fin 2, m_projection_dirty := True, m_matrix_dirty := True \<rparr>
   \<and> set_near_distance (Fin 2) (camera_default [] [] [] :: (8, 23) camera)
     = (camera_default [] [] [])\<lparr> m_near := Fin 2, m_projection_dirty := True, m_matrix_dirty := True \<rparr>
   \<and> set_far_distance (Fin 1000) (camera_default [] [] [] :: (8, 23) camera) = camera_default [] [] []
   \<and> set_position (Fin 0, Fin 0, Fin 0) (camera_default [] [] [] :: (8, 23) camera)
     = camera_default [] [] []
   \<and> set_direction (Fin 0, Fin 3, Fin 0) (camera_default [] [] [] :: (8, 23) camera)
     = (camera_default [] [] [])
         \<lparr> m_direction := (Fin 0, Fin 1, Fin 0), m_view_dirty := True, m_matrix_dirty := True \<rparr>
   \<and> set_up (Fin 0, Fin 3, Fin 0) (camera_default [] [] [] :: (8, 23) camera) = camera_default [] [] []
   \<and> set_far_distance PInf (camera4 [] [] [] (Fin 1) (Fin 1) (Fin 1) PInf :: (8, 23) camera)
     = camera4 [] [] [] (Fin 1) (Fin 1) (Fin 1) PInf
   \<and> set_far_distance NaN (camera4 [] [] [] (Fin 1) (Fin 1) (Fin 1) NaN :: (8, 23) camera)
     = (camera4 [] [] [] (Fin 1) (Fin 1) (Fin 1) NaN)
         \<lparr> m_far := NaN, m_projection_dirty := True, m_matrix_dirty := True \<rparr>"
proof -
  let ?c = "camera_default [] [] [] :: (8, 23) camera"
  have n1: "vector_normalize (Fin 0, Fin 0, Fin (- 1) :: single) = (Fin 0, Fin 0, Fin (- 1))"
    and n2: "vector_normalize (Fin 0, Fin 3, Fin 0 :: single) = (Fin 0, Fin 1, Fin 0)"
    by (simp_all add: to_range_def single_range)
  have fov: "(camera_pi * Fin 90 / Fin 180 :: single) = Fin (314159265359 / 200000000000)"
    by (simp add: camera_pi_def to_range_def single_range)
  have f: "m_fov ?c = Fin (314159265359 / 200000000000)"
    "m_aspect ?c = Fin 1"
    "m_near ?c = Fin 1"
    "m_far ?c = Fin 1000"
    "m_position ?c = (Fin 0, Fin 0, Fin 0)"
    "m_direction ?c = (Fin 0, Fin 0, Fin (- 1))"
    "m_up ?c = (Fin 0, Fin 1, Fin 0)"
    by (simp_all add: camera_default_def fov)
  have g: "m_far (camera4 [] [] [] (Fin 1) (Fin 1) (Fin 1) PInf :: (8, 23) camera) = PInf"
    "m_far (camera4 [] [] [] (Fin 1) (Fin 1) (Fin 1) NaN :: (8, 23) camera) = NaN"
    by (simp_all add: camera4_def)
  show ?thesis
    using setter_noop_or_store [of ?c "Fin 1" "(Fin 0, Fin 0, Fin (- 1))"]
      setter_noop_or_store [of ?c "camera_pi * Fin 90 / Fin 180" "(Fin 0, Fin 3, Fin 0)"]
      setter_noop_or_store [of ?c "Fin 2" "(Fin 0, Fin 0, Fin 0)"]
      setter_noop_or_store [of ?c "Fin 1000" "(Fin 0, Fin 0, Fin 0)"]
      setter_noop_or_store [of "camera4 [] [] [] (Fin 1) (Fin 1) (Fin 1) PInf :: (8, 23) camera" PInf
        "(Fin 0, Fin 0, Fin 0)"]
      setter_noop_or_store [of "camera4 [] [] [] (Fin 1) (Fin 1) (Fin 1) NaN :: (8, 23) camera" NaN
        "(Fin 0, Fin 0, Fin 0)"]
    by (simp add: f g n1 n2 fov to_range_def single_range)
qed

subsection \<open>One update for the three queries\<close>

text \<open>
  Claim C10, as amended. On a camera reached from any constructor by any sequence of
  calls, the three queries run the same \<open>update\<close>: they run the same blocks, one for
  every cache whose dirty flag is set, and leave the same camera. In it the three
  dirty flags are cleared, the cached projection matrix is the perspective matrix of
  the camera's projection parameters, the cached view matrix is the view matrix of its
  position, direction and up vector, and the cached combined matrix is, entry for
  entry, the column-major product of the two, which is what \<open>matrix_mult\<close> computes from
  them; an entry of it that is not NaN compares equal (\<open>==\<close>) to that entry of the
  product. A further query of any of the three runs no block and changes nothing.
\<close>

theorem queries_share_update:
  "(case update (apply_calls ks (new_camera p0 v0 x0 k0)) of (l, c') \<Rightarrow>
      get_projection (apply_calls ks (new_camera p0 v0 x0 k0)) = (m_projection c', l, c')
      \<and> get_view (apply_calls ks (new_camera p0 v0 x0 k0)) = (m_view c', l, c')
      \<and> get_matrix (apply_calls ks (new_camera p0 v0 x0 k0)) = (m_matrix c', l, c')
      \<and> l = (if m_projection_dirty (apply_calls ks (new_camera p0 v0 x0 k0)) then [Projection] else [])
            @ (if m_view_dirty (apply_calls ks (new_camera p0 v0 x0 k0)) then [View] else [])
            @ (if m_matrix_dirty (apply_calls ks (new_camera p0 v0 x0 k0)) then [Matrix] else [])
      \<and> \<not> m_projection_dirty c' \<and> \<not> m_view_dirty c' \<and> \<not> m_matrix_dirty c'
      \<and> m_projection c' = perspective (m_fov c') (m_aspect c') (m_near c') (m_far c')
      \<and> m_view c' = look_at (m_position c') (m_direction c') (m_up c')
      \<and> m_matrix c' = column_major_product (m_projection c') (m_view c')
      \<and> matrix_mult (m_projection c') (m_view c') = column_major_product (m_projection c') (m_view c')
      \<and> (\<forall>i < 16. m_matrix c' ! i \<noteq> NaN \<longrightarrow>
            feq (m_matrix c' ! i) (column_major_product (m_projection c') (m_view c') ! i))
      \<and> get_projection c' = (m_projection c', [], c')
      \<and> get_view c' = (m_view c', [], c')
      \<and> get_matrix c' = (m_matrix c', [], c'))"
proof -
  let ?c = "apply_calls ks (new_camera p0 v0 x0 k0)"
  let ?u = "snd (update ?c)"
  have current: "caches_current ?c"
    by (simp add: caches_current_new_camera caches_current_calls)
  have caches: "m_projection ?u = perspective (m_fov ?u) (m_aspect ?u) (m_near ?u) (m_far ?u)"
    "m_view ?u = look_at (m_position ?u) (m_direction ?u) (m_up ?u)"
    "m_matrix ?u = column_major_product (m_projection ?u) (m_view ?u)"
    using caches_current_after_update [OF current] by (simp_all add: update_parameters)
  have entries: "\<forall>i < 16. m_matrix ?u ! i \<noteq> NaN \<longrightarrow>
      feq (m_matrix ?u ! i) (column_major_product (m_projection ?u) (m_view ?u) ! i)"
    by (simp add: caches(3) [symmetric] feq_self)
  show ?thesis
    using caches entries update_log [of ?c] update_clean [of ?c] update_twice [of ?c]
    by (cases "update ?c") (simp add: get_is_update matrix_mult_is_product)
qed

theorem queries_share_update_witness:
  "fst (update (apply_calls [Set_far_distance (Fin 20), Get_view, Move (Fin 1, Fin 0, Fin 0)]
                   (new_camera [] [] [] (Camera4 (Fin 1) (Fin 1) (Fin 1) (Fin 10)) :: (8, 23) camera)))
     = [View, Matrix]
   \<and> m_matrix (snd (update (apply_calls [Set_far_distance (Fin 20), Get_view, Move (Fin 1, Fin 0, Fin 0)]
                   (new_camera [] [] [] (Camera4 (Fin 1) (Fin 1) (Fin 1) (Fin 10)) :: (8, 23) camera)))) ! 10
     = Fin (- (21 / 19))
   \<and> feq (m_matrix (snd (update (apply_calls [Set_far_distance (Fin 20), Get_view, Move (Fin 1, Fin 0, Fin 0)]
                   (new_camera [] [] [] (Camera4 (Fin 1) (Fin 1) (Fin 1) (Fin 10)) :: (8, 23) camera)))) ! 10)
          (column_major_product
             (m_projection (snd (update (apply_calls [Set_far_distance (Fin 20), Get_view, Move (Fin 1, Fin 0, Fin 0)]
                   (new_camera [] [] [] (Camera4 (Fin 1) (Fin 1) (Fin 1) (Fin 10)) :: (8, 23) camera)))))
             (m_view (snd (update (apply_calls [Set_far_distance (Fin 20), Get_view, Move (Fin 1, Fin 0, Fin 0)]
                   (new_camera [] [] [] (Camera4 (Fin 1) (Fin 1) (Fin 1) (Fin 10)) :: (8, 23) camera))))) ! 10)
   \<and> update (snd (update (apply_calls [Set_far_distance (Fin 20), Get_view, Move (Fin 1, Fin 0, Fin 0)]
                   (new_camera [] [] [] (Camera4 (Fin 1) (Fin 1) (Fin 1) (Fin 10)) :: (8, 23) camera))))
     = ([], snd (update (apply_calls [Set_far_distance (Fin 20), Get_view, Move (Fin 1, Fin 0, Fin 0)]
                   (new_camera [] [] [] (Camera4 (Fin 1) (Fin 1) (Fin 1) (Fin 10)) :: (8, 23) camera))))"
proof -
  let ?c = "apply_calls [Set_far_distance (Fin 20), Get_view, Move (Fin 1, Fin 0, Fin 0)]
              (new_camera [] [] [] (Camera4 (Fin 1) (Fin 1) (Fin 1) (Fin 10)) :: (8, 23) camera)"
  let ?u = "snd (update ?c)"
  have c: "?c = set_position (Fin 1, Fin 0, Fin 0)
                  (snd (update (set_far_distance (Fin 20) (camera4 [] [] [] (Fin 1) (Fin 1) (Fin 1) (Fin 10)))))"
    by (simp add: get_is_update move_def update_parameters set_far_distance_def camera4_def
        camera_default_def to_range_def single_range)
  have flags: "\<not> m_projection_dirty ?c" "m_view_dirty ?c" "m_matrix_dirty ?c"
    unfolding c
    by (simp_all add: set_position_def update_parameters update_clean set_far_distance_def
        camera4_def camera_default_def)
  have params: "m_near ?u = Fin 1" "m_far ?u = Fin 20"
    "m_position ?u = (Fin 1, Fin 0, Fin 0)"
    "m_direction ?u = (Fin 0, Fin 0, Fin (- 1))" "m_up ?u = (Fin 0, Fin 1, Fin 0)"
    unfolding c
    by (simp_all add: set_position_def update_parameters set_far_distance_def
        camera4_def camera_default_def)
  note t = queries_share_update
      [of "[Set_far_distance (Fin 20), Get_view, Move (Fin 1, Fin 0, Fin 0)]" "[]" "[]" "[]"
          "Camera4 (Fin 1) (Fin 1) (Fin 1) (Fin 10) :: (8, 23) constructor_call"]
  have log: "fst (update ?c) = [View, Matrix]"
    by (simp only: update_log flags if_True if_False append_Nil append_Cons)
  have p: "m_projection ?u = perspective (m_fov ?u) (m_aspect ?u) (m_near ?u) (m_far ?u)"
    and v: "m_view ?u = look_at (m_position ?u) (m_direction ?u) (m_up ?u)"
    and m: "m_matrix ?u = column_major_product (m_projection ?u) (m_view ?u)"
    and e: "\<forall>i < 16. m_matrix ?u ! i \<noteq> NaN \<longrightarrow>
              feq (m_matrix ?u ! i) (column_major_product (m_projection ?u) (m_view ?u) ! i)"
    using t [unfolded case_prod_beta] by blast+
  have entry: "m_matrix ?u ! 10 = Fin (- (21 / 19))"
    unfolding m column_major_product_entry_10 p v params
    by (simp add: perspective_def look_at_def column_major_product_nth to_range_def single_range)
  have eq: "feq (m_matrix ?u ! 10) (column_major_product (m_projection ?u) (m_view ?u) ! 10)"
  proof (rule e [rule_format])
    show "(10::nat) < 16" by simp
    show "m_matrix ?u ! 10 \<noteq> NaN" unfolding entry by simp
  qed
  have again: "update ?u = ([], ?u)"
    by (rule update_twice)
  from log entry eq again show ?thesis by blast
qed

text \<open>
  Claim C10 as stated fails where the product has a NaN entry. On the default camera
  with the near plane moved onto the far plane, the projection matrix has the
  entries \<open>-\<infinity>\<close> at the indices 10 and 14; the entry 10 of the combined matrix is
  \<open>0 \<sqdot> 0 + 0 \<sqdot> 0 + (-\<infinity>) \<sqdot> 1 + (-\<infinity>) \<sqdot> 0\<close>, a NaN, and after a query the cached combined
  matrix does not compare equal to the product of the cached projection and view.
\<close>

theorem equal_planes_counterexample:
  "\<not> m_projection_dirty (snd (snd (get_view (apply_calls [Set_near_distance (Fin 1000)]
        (new_camera [] [] [] Camera :: (8, 23) camera)))))
   \<and> \<not> m_view_dirty (snd (snd (get_view (apply_calls [Set_near_distance (Fin 1000)]
        (new_camera [] [] [] Camera :: (8, 23) camera)))))
   \<and> \<not> m_matrix_dirty (snd (snd (get_view (apply_calls [Set_near_distance (Fin 1000)]
        (new_camera [] [] [] Camera :: (8, 23) camera)))))
   \<and> m_projection (snd (snd (get_view (apply_calls [Set_near_distance (Fin 1000)]
        (new_camera [] [] [] Camera :: (8, 23) camera))))) ! 10 = MInf
   \<and> m_matrix (snd (snd (get_view (apply_calls [Set_near_distance (Fin 1000)]
        (new_camera [] [] [] Camera :: (8, 23) camera))))) ! 10 = NaN
   \<and> \<not> feq (m_matrix (snd (snd (get_view (apply_calls [Set_near_distance (Fin 1000)]
              (new_camera [] [] [] Camera :: (8, 23) camera))))) ! 10)
            (matrix_mult
               (m_projection (snd (snd (get_view (apply_calls [Set_near_distance (Fin 1000)]
                  (new_camera [] [] [] Camera :: (8, 23) camera))))))
               (m_view (snd (snd (get_view (apply_calls [Set_near_distance (Fin 1000)]
                  (new_camera [] [] [] Camera :: (8, 23) camera)))))) ! 10)"
proof -
  let ?c = "apply_calls [Set_near_distance (Fin 1000)] (new_camera [] [] [] Camera :: (8, 23) camera)"
  let ?u = "snd (update ?c)"
  have c: "?c = (camera_default [] [] [])
                  \<lparr> m_near := Fin 1000, m_projection_dirty := True, m_matrix_dirty := True \<rparr>"
    by (simp add: set_near_distance_def camera_default_def)
  have q: "snd (snd (get_view ?c)) = ?u"
    by (simp add: get_is_update)
  have flags: "m_projection_dirty ?c" "m_view_dirty ?c" "m_matrix_dirty ?c"
    unfolding c by (simp_all add: camera_default_def)
  have params: "m_near ?c = Fin 1000" "m_far ?c = Fin 1000"
    "m_position ?c = (Fin 0, Fin 0, Fin 0)"
    "m_direction ?c = (Fin 0, Fin 0, Fin (- 1))" "m_up ?c = (Fin 0, Fin 1, Fin 0)"
    unfolding c by (simp_all add: camera_default_def)
  have p: "m_projection ?u = perspective (m_fov ?c) (m_aspect ?c) (m_near ?c) (m_far ?c)"
    by (simp only: update_projection flags if_True)
  have v: "m_view ?u = look_at (m_position ?c) (m_direction ?c) (m_up ?c)"
    by (simp only: update_view flags if_True)
  have m: "m_matrix ?u = column_major_product (m_projection ?u) (m_view ?u)"
    by (simp only: update_matrix flags if_True)
  have p10: "m_projection ?u ! 10 = MInf"
    unfolding p params by (simp add: perspective_def to_range_def single_range)
  have m10: "m_matrix ?u ! 10 = NaN"
    unfolding m column_major_product_entry_10 p v params
    by (simp add: perspective_def look_at_def column_major_product_nth to_range_def single_range)
  show ?thesis
    unfolding q using p10 m10 by (simp add: update_clean)
qed

subsection \<open>The combined matrix is the product\<close>

text \<open>
  Claim C4, as amended. On a camera reached from a constructor by any sequence of
  calls, the matrix that \<open>get_matrix()\<close> returns is, entry for entry, the column-major
  product of the matrices that \<open>get_projection()\<close> and \<open>get_view()\<close> return, which is
  what \<open>matrix_mult\<close> computes from them: for the three queries made one after the other,
  and for each made on the same camera. The matrices returned are the perspective
  matrix of the camera's projection parameters and the view matrix of its position,
  direction and up vector. An entry that is not NaN compares equal to that entry of
  the product, and an entry that is a number is within every tolerance of it; an
  entry that is NaN or an infinity is within no tolerance of anything.
\<close>

theorem matrix_is_projection_times_view:
  "(case get_matrix (apply_calls ks (new_camera p0 v0 x0 k0)) of (m, l1, c1) \<Rightarrow>
    case get_projection c1 of (p, l2, c2) \<Rightarrow>
    case get_view c2 of (v, l3, c3) \<Rightarrow>
      m = column_major_product p v
      \<and> matrix_mult p v = column_major_product p v
      \<and> p = perspective (m_fov c3) (m_aspect c3) (m_near c3) (m_far c3)
      \<and> v = look_at (m_position c3) (m_direction c3) (m_up c3))
   \<and> fst (get_matrix (apply_calls ks (new_camera p0 v0 x0 k0)))
       = column_major_product (fst (get_projection (apply_calls ks (new_camera p0 v0 x0 k0))))
           (fst (get_view (apply_calls ks (new_camera p0 v0 x0 k0))))
   \<and> length (fst (get_matrix (apply_calls ks (new_camera p0 v0 x0 k0)))) = 16
   \<and> (\<forall>i < 16.
        (fst (get_matrix (apply_calls ks (new_camera p0 v0 x0 k0))) ! i \<noteq> NaN \<longrightarrow>
           feq (fst (get_matrix (apply_calls ks (new_camera p0 v0 x0 k0))) ! i)
               (column_major_product (fst (get_projection (apply_calls ks (new_camera p0 v0 x0 k0))))
                  (fst (get_view (apply_calls ks (new_camera p0 v0 x0 k0)))) ! i))
        \<and> (is_number (fst (get_matrix (apply_calls ks (new_camera p0 v0 x0 k0))) ! i) \<and> 0 \<le> tol \<longrightarrow>
           within_tolerance tol (fst (get_matrix (apply_calls ks (new_camera p0 v0 x0 k0))) ! i)
               (column_major_product (fst (get_projection (apply_calls ks (new_camera p0 v0 x0 k0))))
                  (fst (get_view (apply_calls ks (new_camera p0 v0 x0 k0)))) ! i))
        \<and> (\<not> is_number (fst (get_matrix (apply_calls ks (new_camera p0 v0 x0 k0))) ! i) \<longrightarrow>
           \<not> within_tolerance tol (fst (get_matrix (apply_calls ks (new_camera p0 v0 x0 k0))) ! i)
               (column_major_product (fst (get_projection (apply_calls ks (new_camera p0 v0 x0 k0))))
                  (fst (get_view (apply_calls ks (new_camera p0 v0 x0 k0)))) ! i)))"
proof -
  let ?c = "apply_calls ks (new_camera p0 v0 x0 k0)"
  let ?u = "snd (update ?c)"
  have current: "caches_current ?c"
    by (simp add: caches_current_new_camera caches_current_calls)
  have caches: "m_projection ?u = perspective (m_fov ?u) (m_aspect ?u) (m_near ?u) (m_far ?u)"
    "m_view ?u = look_at (m_position ?u) (m_direction ?u) (m_up ?u)"
    using caches_current_after_update [OF current] by (simp_all add: update_parameters)
  have product: "m_matrix ?u = column_major_product (m_projection ?u) (m_view ?u)"
    using caches_current_after_update [OF current] by simp
  have later: "get_projection ?u = (m_projection ?u, [], ?u)" "get_view ?u = (m_view ?u, [], ?u)"
    by (simp_all add: get_is_update update_twice)
  have first: "get_matrix ?c = (m_matrix ?u, fst (update ?c), ?u)"
    by (simp add: get_is_update)
  have a: "case get_matrix ?c of (m, l1, c1) \<Rightarrow>
          case get_projection c1 of (p, l2, c2) \<Rightarrow>
          case get_view c2 of (v, l3, c3) \<Rightarrow>
            m = column_major_product p v
            \<and> matrix_mult p v = column_major_product p v
            \<and> p = perspective (m_fov c3) (m_aspect c3) (m_near c3) (m_far c3)
            \<and> v = look_at (m_position c3) (m_direction c3) (m_up c3)"
    by (simp only: first later prod.case) (simp add: product caches [symmetric] matrix_mult_is_product)
  have b: "fst (get_matrix ?c) = column_major_product (fst (get_projection ?c)) (fst (get_view ?c))"
    using product by (simp add: get_is_update)
  have len: "length (fst (get_matrix ?c)) = 16"
    by (simp only: b length_column_major_product)
  have close: "(x \<noteq> NaN \<longrightarrow> feq x x) \<and> (is_number x \<and> 0 \<le> tol \<longrightarrow> within_tolerance tol x x)
      \<and> (\<not> is_number x \<longrightarrow> \<not> within_tolerance tol x x)" for x :: "('a, 'b) scalar"
    by (cases x) simp_all
  have e: "\<forall>i < 16.
        (fst (get_matrix ?c) ! i \<noteq> NaN \<longrightarrow>
           feq (fst (get_matrix ?c) ! i)
               (column_major_product (fst (get_projection ?c)) (fst (get_view ?c)) ! i))
        \<and> (is_number (fst (get_matrix ?c) ! i) \<and> 0 \<le> tol \<longrightarrow>
           within_tolerance tol (fst (get_matrix ?c) ! i)
               (column_major_product (fst (get_projection ?c)) (fst (get_view ?c)) ! i))
        \<and> (\<not> is_number (fst (get_matrix ?c) ! i) \<longrightarrow>
           \<not> within_tolerance tol (fst (get_matrix ?c) ! i)
               (column_major_product (fst (get_projection ?c)) (fst (get_view ?c)) ! i))"
    unfolding b [symmetric] using close by blast
  from a b len e show ?thesis by (intro conjI)
qed

theorem matrix_is_projection_times_view_witness:
  "fst (get_matrix (apply_calls [Set_far_distance (Fin 20), Rotate (Fin 0, Fin 1, Fin 0, Fin 0)]
          (new_camera [] [] [] (Camera4 (Fin 1) (Fin 1) (Fin 1) (Fin 10)) :: (8, 23) camera))) ! 10
     = Fin (21 / 19)
   \<and> feq (fst (get_matrix (apply_calls [Set_far_distance (Fin 20), Rotate (Fin 0, Fin 1, Fin 0, Fin 0)]
          (new_camera [] [] [] (Camera4 (Fin 1) (Fin 1) (Fin 1) (Fin 10)) :: (8, 23) camera))) ! 10)
        (column_major_product
           (fst (get_projection (apply_calls [Set_far_distance (Fin 20), Rotate (Fin 0, Fin 1, Fin 0, Fin 0)]
              (new_camera [] [] [] (Camera4 (Fin 1) (Fin 1) (Fin 1) (Fin 10)) :: (8, 23) camera))))
           (fst (get_view (apply_calls [Set_far_distance (Fin 20), Rotate (Fin 0, Fin 1, Fin 0, Fin 0)]
              (new_camera [] [] [] (Camera4 (Fin 1) (Fin 1) (Fin 1) (Fin 10)) :: (8, 23) camera)))) ! 10)
   \<and> within_tolerance (1 / 100000)
        (fst (get_matrix (apply_calls [Set_far_distance (Fin 20), Rotate (Fin 0, Fin 1, Fin 0, Fin 0)]
          (new_camera [] [] [] (Camera4 (Fin 1) (Fin 1) (Fin 1) (Fin 10)) :: (8, 23) camera))) ! 10)
        (column_major_product
           (fst (get_projection (apply_calls [Set_far_distance (Fin 20), Rotate (Fin 0, Fin 1, Fin 0, Fin 0)]
              (new_camera [] [] [] (Camera4 (Fin 1) (Fin 1) (Fin 1) (Fin 10)) :: (8, 23) camera))))
           (fst (get_view (apply_calls [Set_far_distance (Fin 20), Rotate (Fin 0, Fin 1, Fin 0, Fin 0)]
              (new_camera [] [] [] (Camera4 (Fin 1) (Fin 1) (Fin 1) (Fin 10)) :: (8, 23) camera)))) ! 10)"
proof -
  let ?c = "apply_calls [Set_far_distance (Fin 20), Rotate (Fin 0, Fin 1, Fin 0, Fin 0)]
              (new_camera [] [] [] (Camera4 (Fin 1) (Fin 1) (Fin 1) (Fin 10)) :: (8, 23) camera)"
  let ?u = "snd (update ?c)"
  have c: "?c = rotate_quaternion (Fin 0, Fin 1, Fin 0, Fin 0)
                  (set_far_distance (Fin 20) (camera4 [] [] [] (Fin 1) (Fin 1) (Fin 1) (Fin 10)))"
    by simp
  have params: "m_near ?c = Fin 1" "m_far ?c = Fin 20"
    "m_position ?c = (Fin 0, Fin 0, Fin 0)"
    unfolding c
    by (simp_all add: rotate_quaternion_frame set_far_distance_def camera4_def camera_default_def)
  have orientation: "m_direction ?c = (Fin 0, Fin 0, Fin 1)" "m_up ?c = (Fin 0, Fin 1, Fin 0)"
    unfolding c
    by (simp_all add: rotate_quaternion_def set_far_distance_def camera4_def camera_default_def
        to_range_def single_range)
  have current: "caches_current ?c"
    by (simp only: caches_current_new_camera caches_current_calls)
  have m: "fst (get_matrix ?c)
      = column_major_product (perspective (m_fov ?c) (m_aspect ?c) (m_near ?c) (m_far ?c))
          (look_at (m_position ?c) (m_direction ?c) (m_up ?c))"
    using caches_current_after_update [OF current] by (simp only: get_is_update fst_conv)
  have entry: "fst (get_matrix ?c) ! 10 = Fin (21 / 19)"
    unfolding m column_major_product_entry_10 params orientation
    by (simp add: perspective_def look_at_def column_major_product_nth to_range_def single_range)
  note t = matrix_is_projection_times_view
      [of "[Set_far_distance (Fin 20), Rotate (Fin 0, Fin 1, Fin 0, Fin 0)]" "[]" "[]" "[]"
          "Camera4 (Fin 1) (Fin 1) (Fin 1) (Fin 10) :: (8, 23) constructor_call" "1 / 100000",
       THEN conjunct2, THEN conjunct2, THEN conjunct2, rule_format, of 10]
  have i: "(10::nat) < 16" by simp
  have number: "fst (get_matrix ?c) ! 10 \<noteq> NaN"
    "is_number (fst (get_matrix ?c) ! 10) \<and> (0::real) \<le> 1 / 100000"
    unfolding entry by simp_all
  from t [OF i, THEN conjunct1, rule_format, OF number(1)]
    t [OF i, THEN conjunct2, THEN conjunct1, rule_format, OF number(2)] entry
  show ?thesis by blast
qed

text \<open>
  Claim C4 as stated fails where the product has an entry that is not a number. For
  the camera constructed with the near and the far plane both at the distance 5, the
  projection matrix has the entries \<open>-\<infinity>\<close> at the indices 10 and 14, and the entry 10
  of the matrix that \<open>get_matrix()\<close> returns is NaN: it is neither equal to nor within a
  tolerance of the entry 10 of the product of the matrices that \<open>get_projection()\<close> and
  \<open>get_view()\<close> return, which is the same NaN.
\<close>

theorem degenerate_frustum_counterexample:
  "fst (get_projection (new_camera [] [] [] (Camera4 (Fin 1) (Fin 1) (Fin 5) (Fin 5)) :: (8, 23) camera)) ! 10
     = MInf
   \<and> fst (get_matrix (new_camera [] [] [] (Camera4 (Fin 1) (Fin 1) (Fin 5) (Fin 5)) :: (8, 23) camera)) ! 10
     = NaN
   \<and> matrix_mult
       (fst (get_projection (new_camera [] [] [] (Camera4 (Fin 1) (Fin 1) (Fin 5) (Fin 5)) :: (8, 23) camera)))
       (fst (get_view (new_camera [] [] [] (Camera4 (Fin 1) (Fin 1) (Fin 5) (Fin 5)) :: (8, 23) camera))) ! 10
     = NaN
   \<and> \<not> feq
       (fst (get_matrix (new_camera [] [] [] (Camera4 (Fin 1) (Fin 1) (Fin 5) (Fin 5)) :: (8, 23) camera)) ! 10)
       (matrix_mult
          (fst (get_projection (new_camera [] [] [] (Camera4 (Fin 1) (Fin 1) (Fin 5) (Fin 5)) :: (8, 23) camera)))
          (fst (get_view (new_camera [] [] [] (Camera4 (Fin 1) (Fin 1) (Fin 5) (Fin 5)) :: (8, 23) camera))) ! 10)
   \<and> \<not> within_tolerance (1 / 100000)
       (fst (get_matrix (new_camera [] [] [] (Camera4 (Fin 1) (Fin 1) (Fin 5) (Fin 5)) :: (8, 23) camera)) ! 10)
       (matrix_mult
          (fst (get_projection (new_camera [] [] [] (Camera4 (Fin 1) (Fin 1) (Fin 5) (Fin 5)) :: (8, 23) camera)))
          (fst (get_view (new_camera [] [] [] (Camera4 (Fin 1) (Fin 1) (Fin 5) (Fin 5)) :: (8, 23) camera))) ! 10)"
proof -
  let ?c = "new_camera [] [] [] (Camera4 (Fin 1) (Fin 1) (Fin 5) (Fin 5)) :: (8, 23) camera"
  let ?u = "snd (update ?c)"
  have flags: "m_projection_dirty ?c" "m_view_dirty ?c" "m_matrix_dirty ?c"
    by (simp_all add: camera4_def camera_default_def)
  have params: "m_near ?c = Fin 5" "m_far ?c = Fin 5"
    "m_position ?c = (Fin 0, Fin 0, Fin 0)"
    "m_direction ?c = (Fin 0, Fin 0, Fin (- 1))" "m_up ?c = (Fin 0, Fin 1, Fin 0)"
    by (simp_all add: camera4_def camera_default_def)
  have p: "fst (get_projection ?c) = perspective (m_fov ?c) (m_aspect ?c) (m_near ?c) (m_far ?c)"
    by (simp only: get_is_update fst_conv update_projection flags if_True)
  have v: "fst (get_view ?c) = look_at (m_position ?c) (m_direction ?c) (m_up ?c)"
    by (simp only: get_is_update fst_conv update_view flags if_True)
  have m: "fst (get_matrix ?c) = column_major_product (fst (get_projection ?c)) (fst (get_view ?c))"
    by (simp only: get_is_update fst_conv update_matrix flags if_True)
  have p10: "fst (get_projection ?c) ! 10 = MInf"
    unfolding p params by (simp add: perspective_def to_range_def single_range)
  have x10: "column_major_product (fst (get_projection ?c)) (fst (get_view ?c)) ! 10 = NaN"
    unfolding column_major_product_entry_10 p v params
    by (simp add: perspective_def look_at_def column_major_product_nth to_range_def single_range)
  show ?thesis
    unfolding matrix_mult_is_product m x10 using p10 by simp
qed

subsection \<open>Movement in camera space\<close>

text \<open>
  Claim C1: what \<open>move_relative\<close> does on the default camera, whose position is the
  origin, whose right vector \<open>normalize(cross(direction, up))\<close> is \<open>(1, 0, 0)\<close> and whose
  view matrix is the identity, so that camera space and world space coincide. The
  offsets \<open>(0, 1, 0)\<close> and \<open>(0, 0, 1)\<close> move it to \<open>(0, 1, 0)\<close> and \<open>(0, 0, 1)\<close>, by the up
  vector and by minus the direction; the offset \<open>(1, 0, 0)\<close> moves it to \<open>(-1, 0, 0)\<close>,
  by minus the right vector. In the view matrix after the move, the translation is
  \<open>-1\<close> along the camera's second and third axis and \<open>+1\<close> along its first.
\<close>

theorem move_relative_mirrors_right:
  "m_position (camera_default [] [] [] :: (8, 23) camera) = (Fin 0, Fin 0, Fin 0)
   \<and> vector_normalize (vector_cross (m_direction (camera_default [] [] [] :: (8, 23) camera))
        (m_up (camera_default [] [] [] :: (8, 23) camera))) = (Fin 1, Fin 0, Fin 0)
   \<and> fst (get_view (camera_default [] [] [] :: (8, 23) camera))
       = [Fin 1, Fin 0, Fin 0, Fin 0,
          Fin 0, Fin 1, Fin 0, Fin 0,
          Fin 0, Fin 0, Fin 1, Fin 0,
          Fin 0, Fin 0, Fin 0, Fin 1]
   \<and> m_position (move_relative (Fin 1, Fin 0, Fin 0) (camera_default [] [] [] :: (8, 23) camera))
       = (Fin (- 1), Fin 0, Fin 0)
   \<and> m_position (move_relative (Fin 0, Fin 1, Fin 0) (camera_default [] [] [] :: (8, 23) camera))
       = (Fin 0, Fin 1, Fin 0)
   \<and> m_position (move_relative (Fin 0, Fin 0, Fin 1) (camera_default [] [] [] :: (8, 23) camera))
       = (Fin 0, Fin 0, Fin 1)
   \<and> m_direction (move_relative (Fin 1, Fin 0, Fin 0) (camera_default [] [] [] :: (8, 23) camera))
       = (Fin 0, Fin 0, Fin (- 1))
   \<and> m_up (move_relative (Fin 1, Fin 0, Fin 0) (camera_default [] [] [] :: (8, 23) camera))
       = (Fin 0, Fin 1, Fin 0)
   \<and> fst (get_view (move_relative (Fin 1, Fin 0, Fin 0) (camera_default [] [] [] :: (8, 23) camera))) ! 12
       = Fin 1
   \<and> fst (get_view (move_relative (Fin 0, Fin 1, Fin 0) (camera_default [] [] [] :: (8, 23) camera))) ! 13
       = Fin (- 1)
   \<and> fst (get_view (move_relative (Fin 0, Fin 0, Fin 1) (camera_default [] [] [] :: (8, 23) camera))) ! 14
       = Fin (- 1)"
proof -
  let ?c = "camera_default [] [] [] :: (8, 23) camera"
  have moved: "move_relative (Fin 1, Fin 0, Fin 0) ?c
        = ?c\<lparr> m_position := (Fin (- 1), Fin 0, Fin 0), m_view_dirty := True, m_matrix_dirty := True \<rparr>"
    "move_relative (Fin 0, Fin 1, Fin 0) ?c
        = ?c\<lparr> m_position := (Fin 0, Fin 1, Fin 0), m_view_dirty := True, m_matrix_dirty := True \<rparr>"
    "move_relative (Fin 0, Fin 0, Fin 1) ?c
        = ?c\<lparr> m_position := (Fin 0, Fin 0, Fin 1), m_view_dirty := True, m_matrix_dirty := True \<rparr>"
    by (simp_all add: move_relative_def move_def set_position_def camera_default_def Let_def)
  have view: "fst (get_view (k\<lparr> m_position := p, m_view_dirty := True, m_matrix_dirty := True \<rparr>))
        = look_at p (m_direction k) (m_up k)" for k :: "(8, 23) camera" and p
    by (simp add: get_is_update update_view)
  have now: "fst (get_view ?c) = look_at (m_position ?c) (m_direction ?c) (m_up ?c)"
    by (simp add: get_is_update update_view camera_default_def)
  have params: "m_position ?c = (Fin 0, Fin 0, Fin 0)"
    "m_direction ?c = (Fin 0, Fin 0, Fin (- 1))" "m_up ?c = (Fin 0, Fin 1, Fin 0)"
    by (simp_all add: camera_default_def)
  show ?thesis
    unfolding moved view now params
    by (simp add: params look_at_def column_major_product_def upt_16)
qed

subsection \<open>Normalisation\<close>









subsection \<open>Stored orientation vectors\<close>











subsection \<open>Tait-Bryan angles\<close>

lemma taitbryan_zero_direction:
  "m_direction (set_orientation_taitbryan (Fin 0) (Fin 0) (Fin 0) c) = (Fin 0, Fin 0, Fin (- 1))"
  unfolding set_orientation_taitbryan_def by (simp split del: if_split)

lemma taitbryan_zero_up:
  "m_up (set_orientation_taitbryan (Fin 0) (Fin 0) (Fin 0) c) = (Fin 0, Fin 1, Fin 0)"
  unfolding set_orientation_taitbryan_def by (simp split del: if_split)

text \<open>
  Claim C5. \<open>set_orientation_taitbryan(0, 0, 0)\<close> on any camera stores the direction
  \<open>(0, 0, -1)\<close> and the up vector \<open>(0, 1, 0)\<close>.
\<close>

theorem taitbryan_zero_is_canonical:
  "m_direction (set_orientation_taitbryan (Fin 0) (Fin 0) (Fin 0) c) = (Fin 0, Fin 0, Fin (- 1))
   \<and> m_up (set_orientation_taitbryan (Fin 0) (Fin 0) (Fin 0) c) = (Fin 0, Fin 1, Fin 0)"
  using taitbryan_zero_direction taitbryan_zero_up by (rule conjI)

subsection \<open>The projection matrix at a field of view of a right angle\<close>

text \<open>
  The sine between its Taylor polynomial of degree 9 minus and plus the next term, on
  the non-negative reals; from it, bounds on the sine at \<open>0.785397\<close> and \<open>0.785399\<close>,
  on either side of \<open>\<pi>/4\<close>, and on the tangent between them.
\<close>

lemma lt10: "{..<10::nat} = {0, 1, 2, 3, 4, 5, 6, 7, 8, 9}"
  by auto

lemma coeffs:
  "sin_coeff 0 = 0" "sin_coeff (Suc 0) = 1" "sin_coeff 2 = 0" "sin_coeff 3 = - (1 / 6)"
  "sin_coeff 4 = 0" "sin_coeff 5 = 1 / 120" "sin_coeff 6 = 0" "sin_coeff 7 = - (1 / 5040)"
  "sin_coeff 8 = 0" "sin_coeff 9 = 1 / 362880"
  by (simp_all add: sin_coeff_def fact_numeral)

lemma sin_taylor_sum:
  fixes x :: real
  shows "(\<Sum>m<10. sin_coeff m * x ^ m)
           = x - x ^ 3 / 6 + x ^ 5 / 120 - x ^ 7 / 5040 + x ^ 9 / 362880"
  unfolding lt10 by (simp add: coeffs)


lemma sin_taylor_bounds:
  fixes x :: real
  assumes "0 \<le> x"
  shows "x - x ^ 3 / 6 + x ^ 5 / 120 - x ^ 7 / 5040 + x ^ 9 / 362880 - x ^ 10 / 3628800 \<le> sin x"
    and "sin x \<le> x - x ^ 3 / 6 + x ^ 5 / 120 - x ^ 7 / 5040 + x ^ 9 / 362880 + x ^ 10 / 3628800"
proof -
  have "\<bar>sin x - (\<Sum>m<10. sin_coeff m * x ^ m)\<bar> \<le> inverse (fact 10) * \<bar>x\<bar> ^ 10"
    by (rule Maclaurin_sin_bound)
  moreover have "fact 10 = (3628800 :: real)"
    by (simp add: fact_numeral)
  moreover have "\<bar>x\<bar> ^ 10 = x ^ 10"
    using assms by simp
  moreover have "inverse (3628800 :: real) * x ^ 10 = x ^ 10 / 3628800"
    by (simp add: field_simps)
  ultimately have b: "\<bar>sin x - (x - x ^ 3 / 6 + x ^ 5 / 120 - x ^ 7 / 5040 + x ^ 9 / 362880)\<bar>
      \<le> x ^ 10 / 3628800"
    by (simp only: sin_taylor_sum)
  from b show "x - x ^ 3 / 6 + x ^ 5 / 120 - x ^ 7 / 5040 + x ^ 9 / 362880 - x ^ 10 / 3628800 \<le> sin x"
    by linarith
  from b show "sin x \<le> x - x ^ 3 / 6 + x ^ 5 / 120 - x ^ 7 / 5040 + x ^ 9 / 362880 + x ^ 10 / 3628800"
    by linarith
qed

lemma sin_lower_at: "7071059 / 10000000 \<le> sin (785397 / 1000000 :: real)"
proof -
  have "(7071059 / 10000000 :: real) \<le>
      (785397 / 1000000) - (785397 / 1000000) ^ 3 / 6 + (785397 / 1000000) ^ 5 / 120
      - (785397 / 1000000) ^ 7 / 5040 + (785397 / 1000000) ^ 9 / 362880
      - (785397 / 1000000) ^ 10 / 3628800"
    by (simp add: power_divide)
  also have "\<dots> \<le> sin (785397 / 1000000)"
    by (rule sin_taylor_bounds) simp
  finally show ?thesis .
qed

lemma sin_upper_at: "sin (785399 / 1000000 :: real) \<le> 7071074 / 10000000"
proof -
  have "sin (785399 / 1000000 :: real) \<le>
      (785399 / 1000000) - (785399 / 1000000) ^ 3 / 6 + (785399 / 1000000) ^ 5 / 120
      - (785399 / 1000000) ^ 7 / 5040 + (785399 / 1000000) ^ 9 / 362880
      + (785399 / 1000000) ^ 10 / 3628800"
    by (rule sin_taylor_bounds) simp
  also have "\<dots> \<le> 7071074 / 10000000"
    by (simp add: power_divide)
  finally show ?thesis .
qed

lemma near_quarter_turn:
  fixes a :: real
  assumes lo: "785397 / 1000000 \<le> a" and hi: "a \<le> 785399 / 1000000"
  shows "0 < sin a" and "0 < cos a"
    and "99999 / 100000 * sin a \<le> cos a" and "cos a \<le> 100001 / 100000 * sin a"
proof -
  have pi2: "1 \<le> pi / 2" using pi_ge_two by simp
  have range: "- (pi / 2) \<le> 785397 / 1000000" "a \<le> pi / 2" "785399 / 1000000 \<le> pi / 2"
    "- (pi / 2) \<le> a" "- (pi / 2) < a" "a < pi / 2"
    using pi2 lo hi by linarith+
  have s1: "7071059 / 10000000 \<le> sin a"
    using sin_lower_at sin_monotone_2pi_le [OF range(1) lo range(2)] by linarith
  have s2: "sin a \<le> 7071074 / 10000000"
    using sin_upper_at sin_monotone_2pi_le [OF range(4) hi range(3)] by linarith
  show s0: "0 < sin a" using s1 by linarith
  show c0: "0 < cos a" using range(5,6) by (rule cos_gt_zero_pi)
  have c2: "cos a * cos a = 1 - sin a * sin a"
    using sin_cos_squared_add [of a] by (simp add: power2_eq_square)
  have "7071059 / 10000000 * (7071059 / 10000000) \<le> sin a * sin a"
    using s1 by (intro mult_mono) simp_all
  then have lower: "4999987 / 10000000 \<le> sin a * sin a" by simp
  have "sin a * sin a \<le> 7071074 / 10000000 * (7071074 / 10000000)"
    using s2 s0 by (intro mult_mono) simp_all
  then have upper: "sin a * sin a \<le> 5000009 / 10000000" by simp
  have nonneg: "0 \<le> cos a" "0 \<le> 100001 / 100000 * sin a"
    using c0 s0 by simp_all
  have "(99999 / 100000 * sin a)\<^sup>2 = 9999800001 / 10000000000 * (sin a * sin a)"
    by (simp add: power2_eq_square)
  also have "\<dots> \<le> cos a * cos a"
    using upper c2 by linarith
  finally have "(99999 / 100000 * sin a)\<^sup>2 \<le> (cos a)\<^sup>2"
    by (simp only: power2_eq_square)
  from this nonneg(1) show "99999 / 100000 * sin a \<le> cos a"
    by (rule power2_le_imp_le)
  have "cos a * cos a \<le> 10000200001 / 10000000000 * (sin a * sin a)"
    using lower c2 by linarith
  also have "\<dots> = (100001 / 100000 * sin a)\<^sup>2"
    by (simp add: power2_eq_square)
  finally have "(cos a)\<^sup>2 \<le> (100001 / 100000 * sin a)\<^sup>2"
    by (simp only: power2_eq_square)
  from this nonneg(2) show "cos a \<le> 100001 / 100000 * sin a"
    by (rule power2_le_imp_le)
qed

lemma tangent_near_quarter_turn:
  fixes a :: real
  assumes lo: "785397 / 1000000 \<le> a" and hi: "a \<le> 785399 / 1000000"
  shows "cos a \<noteq> 0" and "1 / 2 < tan a" and "tan a \<le> 3 / 2"
    and "1 / 2 < 1 / tan a" and "1 / tan a \<le> 3 / 2" and "\<bar>1 / tan a - 1\<bar> \<le> 1 / 100000"
proof -
  note n = near_quarter_turn [OF lo hi]
  show "cos a \<noteq> 0" using n(2) by simp
  have t: "tan a = sin a / cos a" by (simp add: tan_def)
  have ct: "1 / tan a = cos a / sin a" by (simp add: tan_def)
  have "sin a \<le> 3 / 2 * cos a" using n by linarith
  then show "tan a \<le> 3 / 2" unfolding t using n(2) by (simp add: field_simps)
  have "1 / 2 * cos a < sin a" using n by linarith
  then show "1 / 2 < tan a" unfolding t using n(2) by (simp add: field_simps)
  have "cos a \<le> 3 / 2 * sin a" using n by linarith
  then show "1 / tan a \<le> 3 / 2" unfolding ct using n(1) by (simp add: field_simps)
  have "1 / 2 * sin a < cos a" using n by linarith
  then show "1 / 2 < 1 / tan a" unfolding ct using n(1) by (simp add: field_simps)
  have "cos a / sin a \<le> 100001 / 100000" "99999 / 100000 \<le> cos a / sin a"
    using n by (simp_all add: field_simps)
  then show "\<bar>1 / tan a - 1\<bar> \<le> 1 / 100000" unfolding ct by linarith
qed

lemma to_range_moderate:
  "1 / 2 < r \<Longrightarrow> r \<le> 3 / 2 \<Longrightarrow> (to_range r :: ('e::len, 'f::len) scalar) = Fin r"
  using tiny_le_half [where 'e='e and 'f='f] huge_ge [where 'e='e and 'f='f]
  by (intro to_range_exact) (simp_all add: abs_if)

lemma cotangent_of_half:
  fixes fov :: real
  assumes "1570794 / 1000000 \<le> fov" and "fov \<le> 1570798 / 1000000"
  shows "(Fin 1 / ftan (Fin fov / Fin 2) :: ('e::len, 'f::len) scalar) = Fin (1 / tan (fov / 2))"
    and "(Fin 1 / (Fin 1 * ftan (Fin fov / Fin 2)) :: ('e::len, 'f::len) scalar) = Fin (1 / tan (fov / 2))"
    and "\<bar>1 / tan (fov / 2) - 1\<bar> \<le> 1 / 100000"
proof -
  have lo: "785397 / 1000000 \<le> fov / 2" and hi: "fov / 2 \<le> 785399 / 1000000"
    using assms by simp_all
  note t = tangent_near_quarter_turn [OF lo hi]
  have half: "(Fin fov / Fin 2 :: ('e, 'f) scalar) = Fin (fov / 2)"
    using lo hi by (simp add: to_range_moderate)
  have tangent: "(ftan (Fin (fov / 2)) :: ('e, 'f) scalar) = Fin (tan (fov / 2))"
    using t(1,2,3) by (simp add: to_range_moderate)
  have nonzero: "tan (fov / 2) \<noteq> 0"
    using t(2) by simp
  show "(Fin 1 / ftan (Fin fov / Fin 2) :: ('e, 'f) scalar) = Fin (1 / tan (fov / 2))"
    unfolding half tangent using nonzero t(4,5) by (simp add: to_range_moderate)
  have scaled: "(Fin 1 * Fin (tan (fov / 2)) :: ('e, 'f) scalar) = Fin (tan (fov / 2))"
    using t(2,3) by (simp add: to_range_moderate)
  show "(Fin 1 / (Fin 1 * ftan (Fin fov / Fin 2)) :: ('e, 'f) scalar) = Fin (1 / tan (fov / 2))"
    unfolding half tangent scaled using nonzero t(4,5) by (simp add: to_range_moderate)
  show "\<bar>1 / tan (fov / 2) - 1\<bar> \<le> 1 / 100000"
    by (rule t(6))
qed

lemma quarter_of_pi: "1 / 2 < pi / 4" "pi / 4 \<le> 3 / 2"
proof -
  have "sqrt 2 / 2 \<le> pi / 4"
    using sin_x_le_x [of "pi / 4"] by (simp add: sin_45)
  moreover have "1 < sqrt 2" by simp
  ultimately show "1 / 2 < pi / 4" by linarith
  show "pi / 4 \<le> 3 / 2" using pi_less_4 by linarith
qed

lemma get_projection_camera4:
  "fst (get_projection (camera4 p0 v0 x0 fov aspect near_distance far_distance))
     = perspective fov aspect near_distance far_distance"
  by (simp add: get_is_update update_projection camera4_def camera_default_def)

lemma perspective_entries:
  "perspective fov aspect near_distance far_distance ! 0 = Fin 1 / (aspect * ftan (fov / Fin 2))"
  "perspective fov aspect near_distance far_distance ! 5 = Fin 1 / ftan (fov / Fin 2)"
  by (simp_all add: perspective_def)

text \<open>
  Claim C6. For the camera constructed from a field of view between \<open>1.570794\<close> and
  \<open>1.570798\<close>, \<open>aspect = 1\<close>, \<open>near = 0.1\<close> and \<open>far = 100\<close> (the constructor from
  projection parameters, which leaves position and orientation at their defaults),
  in every format, the entries at the flattened indices \<open>0\<close> and \<open>5\<close> of the matrix
  that \<open>get_projection()\<close> returns are within \<open>1e-5\<close> of \<open>1\<close>. The interval holds \<open>\<pi>/2\<close>
  rounded to \<open>float\<close> and to \<open>double\<close> and the camera's own \<open>pi * 90 / 180\<close>. For the
  real number \<open>\<pi>/2\<close> the two entries are \<open>1\<close>.
\<close>

theorem projection_at_right_angle:
  "(1570794 / 1000000 \<le> fov \<and> fov \<le> 1570798 / 1000000 \<longrightarrow>
      (case get_projection (camera4 p0 v0 x0 (Fin fov) (Fin 1) (Fin (1 / 10)) (Fin 100)) of
         (m, l, c') \<Rightarrow>
           within_tolerance (1 / 100000) (m ! 0) (Fin 1)
           \<and> within_tolerance (1 / 100000) (m ! 5) (Fin 1)))
   \<and> (case get_projection (camera4 p0 v0 x0 (Fin (pi / 2)) (Fin 1) (Fin (1 / 10)) (Fin 100)) of
         (m, l, c') \<Rightarrow> m ! 0 = Fin 1 \<and> m ! 5 = Fin 1)"
proof (intro conjI impI)
  assume range: "1570794 / 1000000 \<le> fov \<and> fov \<le> 1570798 / 1000000"
  then have lo: "1570794 / 1000000 \<le> fov" and hi: "fov \<le> 1570798 / 1000000"
    by simp_all
  note e = cotangent_of_half [OF lo hi]
  have "within_tolerance (1 / 100000)
          (perspective (Fin fov :: ('a, 'b) scalar) (Fin 1) (Fin (1 / 10)) (Fin 100) ! 0) (Fin 1)"
    "within_tolerance (1 / 100000)
          (perspective (Fin fov :: ('a, 'b) scalar) (Fin 1) (Fin (1 / 10)) (Fin 100) ! 5) (Fin 1)"
    by (simp_all only: perspective_entries e within_tolerance.simps)
  then show "case get_projection (camera4 p0 v0 x0 (Fin fov :: ('a, 'b) scalar) (Fin 1) (Fin (1 / 10)) (Fin 100)) of
         (m, l, c') \<Rightarrow>
           within_tolerance (1 / 100000) (m ! 0) (Fin 1)
           \<and> within_tolerance (1 / 100000) (m ! 5) (Fin 1)"
    using get_projection_camera4 [of p0 v0 x0 "Fin fov" "Fin 1" "Fin (1 / 10)" "Fin 100"]
    by (cases "get_projection (camera4 p0 v0 x0 (Fin fov) (Fin 1) (Fin (1 / 10)) (Fin 100))") simp
next
  have half: "(Fin (pi / 2) / Fin 2 :: ('a, 'b) scalar) = Fin (pi / 4)"
    using quarter_of_pi by (simp add: to_range_moderate)
  have "perspective (Fin (pi / 2) :: ('a, 'b) scalar) (Fin 1) (Fin (1 / 10)) (Fin 100) ! 0 = Fin 1"
    "perspective (Fin (pi / 2) :: ('a, 'b) scalar) (Fin 1) (Fin (1 / 10)) (Fin 100) ! 5 = Fin 1"
    unfolding perspective_entries half by (simp_all add: tan_45 cos_45)
  then show "case get_projection (camera4 p0 v0 x0 (Fin (pi / 2) :: ('a, 'b) scalar) (Fin 1) (Fin (1 / 10)) (Fin 100)) of
         (m, l, c') \<Rightarrow> m ! 0 = Fin 1 \<and> m ! 5 = Fin 1"
    using get_projection_camera4 [of p0 v0 x0 "Fin (pi / 2)" "Fin 1" "Fin (1 / 10)" "Fin 100"]
    by (cases "get_projection (camera4 p0 v0 x0 (Fin (pi / 2)) (Fin 1) (Fin (1 / 10)) (Fin 100))") simp
qed

theorem projection_at_right_angle_witness:
  "(1570794 / 1000000 :: real) \<le> 314159265359 / 200000000000
   \<and> (314159265359 / 200000000000 :: real) \<le> 1570798 / 1000000
   \<and> (camera_pi * Fin 90 / Fin 180 :: single) = Fin (314159265359 / 200000000000)
   \<and> within_tolerance (1 / 100000)
        (fst (get_projection (camera4 [] [] [] (camera_pi * Fin 90 / Fin 180) (Fin 1) (Fin (1 / 10)) (Fin 100)
                :: (8, 23) camera)) ! 0) (Fin 1)
   \<and> within_tolerance (1 / 100000)
        (fst (get_projection (camera4 [] [] [] (camera_pi * Fin 90 / Fin 180) (Fin 1) (Fin (1 / 10)) (Fin 100)
                :: (8, 23) camera)) ! 5) (Fin 1)
   \<and> within_tolerance (1 / 100000)
        (fst (get_projection (camera4 [] [] [] (Fin (13176795 / 8388608)) (Fin 1) (Fin (1 / 10)) (Fin 100)
                :: (8, 23) camera)) ! 0) (Fin 1)
   \<and> within_tolerance (1 / 100000)
        (fst (get_projection (camera4 [] [] [] (Fin (7074237752028440 / 4503599627370496)) (Fin 1)
                (Fin (1 / 10)) (Fin 100) :: (11, 52) camera)) ! 5) (Fin 1)"
proof -
  have fov: "(camera_pi * Fin 90 / Fin 180 :: single) = Fin (314159265359 / 200000000000)"
    by (simp add: camera_pi_def to_range_def single_range)
  have r1: "(1570794 / 1000000 :: real) \<le> 314159265359 / 200000000000
      \<and> (314159265359 / 200000000000 :: real) \<le> 1570798 / 1000000"
    and r2: "(1570794 / 1000000 :: real) \<le> 13176795 / 8388608
      \<and> (13176795 / 8388608 :: real) \<le> 1570798 / 1000000"
    and r3: "(1570794 / 1000000 :: real) \<le> 7074237752028440 / 4503599627370496
      \<and> (7074237752028440 / 4503599627370496 :: real) \<le> 1570798 / 1000000"
    by simp_all
  note t1 = projection_at_right_angle [where 'a=8 and 'b=23, of "314159265359 / 200000000000" "[]" "[]" "[]",
      THEN conjunct1, rule_format, OF r1]
  note t2 = projection_at_right_angle [where 'a=8 and 'b=23, of "13176795 / 8388608" "[]" "[]" "[]",
      THEN conjunct1, rule_format, OF r2]
  note t3 = projection_at_right_angle [where 'a=11 and 'b=52, of "7074237752028440 / 4503599627370496" "[]" "[]" "[]",
      THEN conjunct1, rule_format, OF r3]
  from t1 t2 t3 r1 show ?thesis
    unfolding fov by (simp add: case_prod_beta)
qed

end
